theory Spec2Isabelle
  imports Main
begin

section \<open>util-src/crypto.c: the Lua binding of OpenSSL in Prosody\<close>

text \<open>
  The file \<^verbatim>\<open>crypto.c\<close> is glue: every entry point reads its arguments from the Lua
  stack, checks them, drives a fixed sequence of OpenSSL calls and turns the native
  return codes into Lua values or Lua errors.  The embedding keeps exactly that shape.

  \<^item> A Lua call is the list of its arguments (\<open>lua_value list\<close>, argument 1 first).
  \<^item> What a C function does to the caller is an \<open>outcome\<close>: the values it returns, the
    Lua error it raises (\<open>luaL_error\<close>, \<open>luaL_argerror\<close>), or \<open>Undefined\<close> where the C
    code leaves the behaviour undefined (a write past a buffer, signed overflow, a
    native function used outside its interface).
  \<^item> OpenSSL is not part of the repository.  It is a parameter: a record \<open>native\<close> of
    response functions, one per native function whose result the code reads.  Each
    response may depend on the calls made before it in the same invocation (the
    \<open>trace\<close>), so a stateful context is covered.  Every entry point returns, next to
    its outcome, the trace of the native calls it made, in order.
  \<^item> Byte strings are Lua strings: \<open>string\<close> (a list of 8-bit characters).  A number
    passed where a string is expected is coerced by Lua to its decimal string; such an
    argument is represented by that string.
  \<^item> The platform is LP64: \<open>size_t\<close> has 64 bits and \<open>int\<close> has 32, and a conversion
    from \<open>size_t\<close> to \<open>int\<close> keeps the low 32 bits (two's complement).
\<close>

subsection \<open>Lua values, errors and outcomes\<close>

text \<open>The identity of a native \<open>EVP_PKEY\<close> object; \<open>None\<close> is the \<open>NULL\<close> pointer.\<close>

type_synonym pkey = nat

text \<open>
  A key userdata (metatable \<^verbatim>\<open>"util.crypto key"\<close>): the wrapped pointer and the two fields
  of its user value, as \<open>push_pkey\<close> writes them.  \<open>uv_type\<close> is the field \<^verbatim>\<open>type\<close>
  (absent when \<open>push_pkey\<close> got type 0) and \<open>uv_private\<close> says whether the field
  \<^verbatim>\<open>private\<close> is set to \<open>true\<close>.
\<close>

record key_handle =
  wrapped :: "pkey option"
  uv_type :: "int option"
  uv_private :: bool

text \<open>\<open>LOther tn\<close> is any other Lua value, with the name of its type (table, function, ...).\<close>

datatype lua_value =
    LNil
  | LBoolean bool
  | LString string
  | LKey key_handle
  | LOther string

text \<open>
  \<open>ArgError n msg\<close> is \<open>luaL_argerror(L, n, msg)\<close> (bad argument number \<open>n\<close>);
  \<open>RuntimeError msg\<close> is \<open>luaL_error(L, msg)\<close> or \<open>lua_error\<close> with a message.
\<close>

datatype lua_error =
    ArgError nat string
  | RuntimeError string

datatype outcome =
    Return "lua_value list"
  | Raise lua_error
  | Undefined

text \<open>The argument at a stack index (1-based); \<open>None\<close> when the index is above the top.\<close>

definition arg_at :: "lua_value list \<Rightarrow> nat \<Rightarrow> lua_value option" where
  "arg_at args i = (if 1 \<le> i \<and> i \<le> length args then Some (args ! (i - 1)) else None)"

fun luaL_typename :: "lua_value option \<Rightarrow> string" where
  "luaL_typename None = ''no value''"
| "luaL_typename (Some LNil) = ''nil''"
| "luaL_typename (Some (LBoolean b)) = ''boolean''"
| "luaL_typename (Some (LString s)) = ''string''"
| "luaL_typename (Some (LKey h)) = ''userdata''"
| "luaL_typename (Some (LOther tn)) = tn"

definition luaL_checklstring :: "lua_value list \<Rightarrow> nat \<Rightarrow> lua_error + string" where
  "luaL_checklstring args i =
     (case arg_at args i of
        Some (LString s) \<Rightarrow> Inr s
      | v \<Rightarrow> Inl (ArgError i (''string expected, got '' @ luaL_typename v)))"

text \<open>\<open>lua_tolstring\<close> does not raise: for a value that is no string it yields \<open>NULL\<close>
  and length 0, which the native calls read as the empty message.\<close>

definition lua_tolstring :: "lua_value list \<Rightarrow> nat \<Rightarrow> string" where
  "lua_tolstring args i = (case arg_at args i of Some (LString s) \<Rightarrow> s | _ \<Rightarrow> [])"

definition luaL_checkudata :: "lua_value list \<Rightarrow> nat \<Rightarrow> lua_error + key_handle" where
  "luaL_checkudata args i =
     (case arg_at args i of
        Some (LKey h) \<Rightarrow> Inr h
      | v \<Rightarrow> Inl (ArgError i (''util.crypto key expected, got '' @ luaL_typename v)))"

text \<open>The \<^verbatim>\<open>%d\<close> of \<open>luaL_error\<close>: a natural number in decimal.\<close>

definition digit_char :: "nat \<Rightarrow> char" where
  "digit_char d = ''0123456789'' ! d"

fun show_dec :: "nat \<Rightarrow> string" where
  "show_dec n = (if n < 10 then [digit_char n] else show_dec (n div 10) @ [digit_char (n mod 10)])"

declare show_dec.simps [simp del]

text \<open>The conversion from \<open>size_t\<close> to \<open>int\<close> on LP64, and the largest \<open>int\<close>.\<close>

definition INT_MAX :: int where
  "INT_MAX = 2147483647"

definition int_of_size :: "nat \<Rightarrow> int" where
  "int_of_size n =
     (let m = n mod 4294967296 in if m < 2147483648 then int m else int m - 4294967296)"

subsection \<open>Constants of the OpenSSL headers\<close>

definition NID_rsaEncryption :: int where "NID_rsaEncryption = 6"
definition NID_X9_62_id_ecPublicKey :: int where "NID_X9_62_id_ecPublicKey = 408"
definition NID_rsassaPss :: int where "NID_rsassaPss = 912"
definition NID_ED25519 :: int where "NID_ED25519 = 1087"
definition EVP_PKEY_ED25519 :: int where "EVP_PKEY_ED25519 = NID_ED25519"
definition RSA_PKCS1_PADDING :: int where "RSA_PKCS1_PADDING = 1"
definition RSA_PKCS1_PSS_PADDING :: int where "RSA_PKCS1_PSS_PADDING = 6"

datatype EVP_MD = EVP_sha256

datatype EVP_CIPHER = EVP_aes_128_gcm | EVP_aes_256_gcm

subsection \<open>The native library as a parameter\<close>

text \<open>
  One constructor per native call the code makes.  A \<open>NULL\<close> argument is \<open>None\<close>.
  \<open>Call_EVP_DigestSign None msg\<close> is the size query (\<open>sig = NULL\<close>),
  \<open>Call_EVP_DigestSign (Some n) msg\<close> the call with a buffer and \<open>sig_len = n\<close>.
  The update calls carry the \<open>inl\<close> bytes the native function is given and \<open>inl\<close> itself.
\<close>

datatype native_call =
    Call_EVP_MD_CTX_new
  | Call_EVP_MD_CTX_free
  | Call_EVP_DigestSignInit "EVP_MD option" "pkey option"
  | Call_EVP_DigestVerifyInit "EVP_MD option" "pkey option"
  | Call_EVP_PKEY_CTX_set_rsa_padding int
  | Call_EVP_DigestSign "nat option" string
  | Call_EVP_DigestVerify string string
  | Call_EVP_PKEY_CTX_new_id int
  | Call_EVP_PKEY_keygen_init
  | Call_EVP_PKEY_keygen
  | Call_EVP_PKEY_CTX_free
  | Call_EVP_CIPHER_CTX_new
  | Call_EVP_EncryptInit_ex "EVP_CIPHER option" "string option" "string option"
  | Call_EVP_EncryptUpdate string int
  | Call_EVP_EncryptFinal_ex
  | Call_EVP_CTRL_AEAD_GET_TAG nat
  | Call_EVP_DecryptInit_ex "EVP_CIPHER option" "string option" "string option"
  | Call_EVP_DecryptUpdate string int
  | Call_EVP_CTRL_AEAD_SET_TAG nat string
  | Call_EVP_DecryptFinal_ex

type_synonym trace = "native_call list"

text \<open>
  The responses.  The first argument of each is the trace of the calls made before.
  A function that writes into a caller's buffer returns the bytes it wrote; the
  length it reports (\<open>*outl\<close>, \<open>*siglen\<close>) is the length of that string.
  \<open>EVP_CTRL_AEAD_GET_TAG\<close> copies exactly the number of bytes asked for; its response
  gives byte \<open>i\<close> of the tag.  \<open>EVP_PKEY_keygen\<close> returns its code and the value
  it leaves in \<open>pkey\<close>.  The two DER functions of the ECDSA codec are pure.
\<close>

record native =
  EVP_MD_CTX_new :: "trace \<Rightarrow> bool"
  EVP_DigestSignInit :: "trace \<Rightarrow> EVP_MD option \<Rightarrow> pkey option \<Rightarrow> int"
  EVP_DigestSign_size :: "trace \<Rightarrow> string \<Rightarrow> int \<times> nat"
  EVP_DigestSign :: "trace \<Rightarrow> nat \<Rightarrow> string \<Rightarrow> int \<times> string"
  EVP_DigestVerifyInit :: "trace \<Rightarrow> EVP_MD option \<Rightarrow> pkey option \<Rightarrow> int"
  EVP_DigestVerify :: "trace \<Rightarrow> string \<Rightarrow> string \<Rightarrow> int"
  EVP_PKEY_keygen :: "trace \<Rightarrow> int \<times> pkey option"
  EVP_CIPHER_CTX_new :: "trace \<Rightarrow> bool"
  EVP_EncryptInit_ex :: "trace \<Rightarrow> EVP_CIPHER option \<Rightarrow> string option \<Rightarrow> string option \<Rightarrow> int"
  EVP_EncryptUpdate :: "trace \<Rightarrow> string \<Rightarrow> int \<Rightarrow> int \<times> string"
  EVP_EncryptFinal_ex :: "trace \<Rightarrow> int \<times> string"
  EVP_CTRL_AEAD_GET_TAG :: "trace \<Rightarrow> int \<times> (nat \<Rightarrow> char)"
  EVP_DecryptInit_ex :: "trace \<Rightarrow> EVP_CIPHER option \<Rightarrow> string option \<Rightarrow> string option \<Rightarrow> int"
  EVP_DecryptUpdate :: "trace \<Rightarrow> string \<Rightarrow> int \<Rightarrow> int \<times> string"
  EVP_CTRL_AEAD_SET_TAG :: "trace \<Rightarrow> string \<Rightarrow> int"
  EVP_DecryptFinal_ex :: "trace \<Rightarrow> int \<times> string"
  d2i_ECDSA_SIG :: "string \<Rightarrow> (nat \<times> nat) option"
  i2d_ECDSA_SIG :: "nat \<Rightarrow> nat \<Rightarrow> string option"

subsection \<open>AES-GCM: \<open>Laes_gcm_encrypt\<close> and \<open>Laes_gcm_decrypt\<close>\<close>

text \<open>
  Modelled from the spec: the macro \<open>MANAGED_POINTER_ALLOCATOR\<close> of
  \<^verbatim>\<open>managed_pointer.h\<close> is not among the sources.  Each invocation creates its own
  native context, released by the collector afterwards; the allocator is called, and
  a \<open>NULL\<close> result is raised as a Lua error.
\<close>

definition managed_alloc_error :: lua_error where
  "managed_alloc_error = RuntimeError ''not enough memory''"

text \<open>
  Lines 326--365: the native part of \<open>Laes_gcm_encrypt\<close>, entered once the arguments
  have passed the checks.  The output buffer has \<open>plaintext_len + 16\<close> bytes; what
  the update and the final step write is in the buffer before their return code is
  read, and the tag is copied when the control call succeeds.
  \<open>ciphertext_len + 16\<close> is computed in \<open>int\<close>.
\<close>

definition aes_gcm_encrypt_native ::
  "native \<Rightarrow> EVP_CIPHER \<Rightarrow> string \<Rightarrow> string \<Rightarrow> string \<Rightarrow> outcome \<times> trace" where
  "aes_gcm_encrypt_native N cipher key iv plaintext =
    (let t1 = [Call_EVP_CIPHER_CTX_new] in
     if \<not> EVP_CIPHER_CTX_new N [] then (Raise managed_alloc_error, t1) else
     let t2 = t1 @ [Call_EVP_EncryptInit_ex (Some cipher) None None] in
     if EVP_EncryptInit_ex N t1 (Some cipher) None None \<noteq> 1
     then (Raise (RuntimeError ''Error while initializing encryption engine''), t2) else
     let t3 = t2 @ [Call_EVP_EncryptInit_ex None (Some key) (Some iv)] in
     if EVP_EncryptInit_ex N t2 None (Some key) (Some iv) \<noteq> 1
     then (Raise (RuntimeError ''Error while initializing key/iv''), t3) else
     let capacity = length plaintext + 16;
         inl = int_of_size (length plaintext);
         input = take (nat inl) plaintext;
         t4 = t3 @ [Call_EVP_EncryptUpdate input inl];
         (ret4, ciphertext) = EVP_EncryptUpdate N t3 input inl in
     if length ciphertext > capacity then (Undefined, t4) else
     if ret4 \<noteq> 1 then (Raise (RuntimeError ''Error while encrypting data''), t4) else
     let t5 = t4 @ [Call_EVP_EncryptFinal_ex];
         (ret5, final) = EVP_EncryptFinal_ex N t4 in
     if length ciphertext + length final > capacity then (Undefined, t5) else
     if ret5 \<noteq> 1 then (Raise (RuntimeError ''Error while encrypting final data''), t5) else
     if length final \<noteq> 0 then (Raise (RuntimeError ''Non-zero final data''), t5) else
     let t6 = t5 @ [Call_EVP_CTRL_AEAD_GET_TAG 16];
         (ret6, tag) = EVP_CTRL_AEAD_GET_TAG N t5 in
     if ret6 \<noteq> 1 then (Raise (RuntimeError ''Unable to read AEAD tag of encrypted data''), t6) else
     if length ciphertext + 16 > capacity then (Undefined, t6) else
     if int (length ciphertext) + 16 > INT_MAX then (Undefined, t6) else
     (Return [LString (ciphertext @ map tag [0..<16])], t6))"

definition Laes_gcm_encrypt ::
  "native \<Rightarrow> lua_value list \<Rightarrow> EVP_CIPHER \<Rightarrow> nat \<Rightarrow> outcome \<times> trace" where
  "Laes_gcm_encrypt N args cipher expected_key_len =
    (case luaL_checklstring args 1 of Inl e \<Rightarrow> (Raise e, []) | Inr key \<Rightarrow>
    (case luaL_checklstring args 2 of Inl e \<Rightarrow> (Raise e, []) | Inr iv \<Rightarrow>
    (case luaL_checklstring args 3 of Inl e \<Rightarrow> (Raise e, []) | Inr plaintext \<Rightarrow>
     if length key \<noteq> expected_key_len
     then (Raise (RuntimeError (''key must be '' @ show_dec expected_key_len @ '' bytes'')), [])
     else if length iv \<noteq> 12 then (Raise (ArgError 2 ''iv must be 12 bytes''), [])
     else if length args > 3
     then (Raise (RuntimeError (''Expected 3 arguments, got '' @ show_dec (length args))), [])
     else aes_gcm_encrypt_native N cipher key iv plaintext)))"

definition Laes_128_gcm_encrypt :: "native \<Rightarrow> lua_value list \<Rightarrow> outcome \<times> trace" where
  "Laes_128_gcm_encrypt N args = Laes_gcm_encrypt N args EVP_aes_128_gcm 16"

definition Laes_256_gcm_encrypt :: "native \<Rightarrow> lua_value list \<Rightarrow> outcome \<times> trace" where
  "Laes_256_gcm_encrypt N args = Laes_gcm_encrypt N args EVP_aes_256_gcm 32"

text \<open>
  Lines 397--441: the native part of \<open>Laes_gcm_decrypt\<close>.  The output buffer has
  \<open>ciphertext_len\<close> bytes; the decrypt calls are tested with \<open>!\<close>, so only a return
  of 0 is an error; the tag is the last 16 bytes of the input.
\<close>

definition aes_gcm_decrypt_native ::
  "native \<Rightarrow> EVP_CIPHER \<Rightarrow> string \<Rightarrow> string \<Rightarrow> string \<Rightarrow> outcome \<times> trace" where
  "aes_gcm_decrypt_native N cipher key iv ciphertext =
    (let t1 = [Call_EVP_CIPHER_CTX_new] in
     if \<not> EVP_CIPHER_CTX_new N [] then (Raise managed_alloc_error, t1) else
     let t2 = t1 @ [Call_EVP_DecryptInit_ex (Some cipher) None None] in
     if EVP_DecryptInit_ex N t1 (Some cipher) None None = 0
     then (Raise (RuntimeError ''Error while initializing decryption engine''), t2) else
     let t3 = t2 @ [Call_EVP_DecryptInit_ex None (Some key) (Some iv)] in
     if EVP_DecryptInit_ex N t2 None (Some key) (Some iv) = 0
     then (Raise (RuntimeError ''Error while initializing key/iv''), t3) else
     let capacity = length ciphertext;
         inl = int_of_size (length ciphertext - 16);
         input = take (nat inl) ciphertext;
         t4 = t3 @ [Call_EVP_DecryptUpdate input inl];
         (ret4, plaintext) = EVP_DecryptUpdate N t3 input inl in
     if length plaintext > capacity then (Undefined, t4) else
     if ret4 = 0 then (Raise (RuntimeError ''Error while decrypting data''), t4) else
     let tag = drop (length ciphertext - 16) ciphertext;
         t5 = t4 @ [Call_EVP_CTRL_AEAD_SET_TAG 16 tag] in
     if EVP_CTRL_AEAD_SET_TAG N t4 tag = 0
     then (Raise (RuntimeError ''Error while processing authentication tag''), t5) else
     let t6 = t5 @ [Call_EVP_DecryptFinal_ex];
         (ret, final) = EVP_DecryptFinal_ex N t5 in
     if length plaintext + length final > capacity then (Undefined, t6) else
     if ret \<le> 0 then (Return [LNil, LString ''verify-failed''], t6) else
     (Return [LString (plaintext @ final)], t6))"

definition Laes_gcm_decrypt ::
  "native \<Rightarrow> lua_value list \<Rightarrow> EVP_CIPHER \<Rightarrow> nat \<Rightarrow> outcome \<times> trace" where
  "Laes_gcm_decrypt N args cipher expected_key_len =
    (case luaL_checklstring args 1 of Inl e \<Rightarrow> (Raise e, []) | Inr key \<Rightarrow>
    (case luaL_checklstring args 2 of Inl e \<Rightarrow> (Raise e, []) | Inr iv \<Rightarrow>
    (case luaL_checklstring args 3 of Inl e \<Rightarrow> (Raise e, []) | Inr ciphertext \<Rightarrow>
     if length key \<noteq> expected_key_len
     then (Raise (RuntimeError (''key must be '' @ show_dec expected_key_len @ '' bytes'')), [])
     else if length iv \<noteq> 12 then (Raise (ArgError 2 ''iv must be 12 bytes''), [])
     else if \<not> length ciphertext > 16
     then (Raise (ArgError 3 ''ciphertext must be at least 16 bytes (including tag)''), [])
     else if length args > 3
     then (Raise (RuntimeError (''Expected 3 arguments, got '' @ show_dec (length args))), [])
     else aes_gcm_decrypt_native N cipher key iv ciphertext)))"

definition Laes_128_gcm_decrypt :: "native \<Rightarrow> lua_value list \<Rightarrow> outcome \<times> trace" where
  "Laes_128_gcm_decrypt N args = Laes_gcm_decrypt N args EVP_aes_128_gcm 16"

definition Laes_256_gcm_decrypt :: "native \<Rightarrow> lua_value list \<Rightarrow> outcome \<times> trace" where
  "Laes_256_gcm_decrypt N args = Laes_gcm_decrypt N args EVP_aes_256_gcm 32"

subsection \<open>Key handles: \<open>pkey_from_arg\<close> and \<open>push_pkey\<close>\<close>

text \<open>\<open>lua_tointeger\<close> of the field \<^verbatim>\<open>type\<close>: 0 when the field is absent.\<close>

definition got_type :: "key_handle \<Rightarrow> int" where
  "got_type h = (case uv_type h of None \<Rightarrow> 0 | Some t \<Rightarrow> t)"

text \<open>Lines 48--71.  The type is checked before the private flag.\<close>

definition pkey_from_arg ::
  "lua_value list \<Rightarrow> nat \<Rightarrow> int \<Rightarrow> int \<Rightarrow> lua_error + pkey option" where
  "pkey_from_arg args idx ktype require_private =
    (case luaL_checkudata args idx of
       Inl e \<Rightarrow> Inl e
     | Inr h \<Rightarrow>
         if ktype \<noteq> 0 \<or> require_private \<noteq> 0 then
           if ktype \<noteq> 0 \<and> got_type h \<noteq> ktype
           then Inl (ArgError idx ''unexpected key type'')
           else if require_private \<noteq> 0 \<and> \<not> uv_private h
           then Inl (ArgError idx ''private key expected, got public key only'')
           else Inr (wrapped h)
         else Inr (wrapped h))"

text \<open>Lines 209--227: the new userdata, with the fields that are set.\<close>

definition push_pkey :: "pkey option \<Rightarrow> int \<Rightarrow> int \<Rightarrow> lua_value" where
  "push_pkey p ktype privkey =
     LKey \<lparr>wrapped = p,
           uv_type = (if ktype \<noteq> 0 then Some ktype else None),
           uv_private = (privkey \<noteq> 0)\<rparr>"

text \<open>Lines 229--240.  No return code of the four native calls is read.\<close>

definition Lgenerate_ed25519_keypair :: "native \<Rightarrow> lua_value list \<Rightarrow> outcome \<times> trace" where
  "Lgenerate_ed25519_keypair N args =
    (let t1 = [Call_EVP_PKEY_CTX_new_id EVP_PKEY_ED25519];
         t2 = t1 @ [Call_EVP_PKEY_keygen_init];
         t3 = t2 @ [Call_EVP_PKEY_keygen];
         (ret, p) = EVP_PKEY_keygen N t2;
         t4 = t3 @ [Call_EVP_PKEY_CTX_free]
     in (Return [push_pkey p NID_ED25519 1], t4))"

subsection \<open>Signing and verifying: \<open>base_evp_sign\<close> and \<open>base_evp_verify\<close>\<close>

text \<open>The key type \<open>pkey_from_arg\<close> is asked to check (lines 88 and 127).\<close>

definition expected_key_type :: "int \<Rightarrow> int" where
  "expected_key_type key_type =
     (if key_type \<noteq> NID_rsassaPss then key_type else NID_rsaEncryption)"

text \<open>
  Lines 87--124.  \<open>luaL_prepbuffer\<close> gives \<open>LUAL_BUFFERSIZE\<close> bytes (a constant of
  the Lua headers, a parameter here); \<open>memset\<close> clears \<open>sig_len\<close> of them.
\<close>

definition base_evp_sign ::
  "nat \<Rightarrow> native \<Rightarrow> lua_value list \<Rightarrow> int \<Rightarrow> EVP_MD option \<Rightarrow> outcome \<times> trace" where
  "base_evp_sign LUAL_BUFFERSIZE N args key_type digest_type =
    (case pkey_from_arg args 1 (expected_key_type key_type) 1 of
       Inl e \<Rightarrow> (Raise e, [])
     | Inr p \<Rightarrow>
        (let msg = lua_tolstring args 2;
             t1 = [Call_EVP_MD_CTX_new] in
         if \<not> EVP_MD_CTX_new N [] then (Raise managed_alloc_error, t1) else
         let t2 = t1 @ [Call_EVP_DigestSignInit digest_type p] in
         if EVP_DigestSignInit N t1 digest_type p \<noteq> 1 then (Return [LNil], t2) else
         let t3 = (if key_type = NID_rsassaPss
                   then t2 @ [Call_EVP_PKEY_CTX_set_rsa_padding RSA_PKCS1_PSS_PADDING]
                   else t2);
             t4 = t3 @ [Call_EVP_DigestSign None msg];
             (ret4, sig_len) = EVP_DigestSign_size N t3 msg in
         if ret4 \<noteq> 1 then (Return [LNil], t4) else
         if sig_len > LUAL_BUFFERSIZE then (Undefined, t4) else
         let t5 = t4 @ [Call_EVP_DigestSign (Some sig_len) msg];
             (ret5, sg) = EVP_DigestSign N t4 sig_len msg in
         if length sg > LUAL_BUFFERSIZE then (Undefined, t5) else
         if ret5 \<noteq> 1 then (Return [LNil], t5) else
         (Return [LString sg], t5)))"

text \<open>Lines 126--156.  The context is freed on every path that created it.\<close>

definition base_evp_verify ::
  "native \<Rightarrow> lua_value list \<Rightarrow> int \<Rightarrow> EVP_MD option \<Rightarrow> outcome \<times> trace" where
  "base_evp_verify N args key_type digest_type =
    (case pkey_from_arg args 1 (expected_key_type key_type) 0 of
       Inl e \<Rightarrow> (Raise e, [])
     | Inr p \<Rightarrow>
    (case luaL_checklstring args 2 of Inl e \<Rightarrow> (Raise e, []) | Inr msg \<Rightarrow>
    (case luaL_checklstring args 3 of Inl e \<Rightarrow> (Raise e, []) | Inr sg \<Rightarrow>
        (let t1 = [Call_EVP_MD_CTX_new];
             t2 = t1 @ [Call_EVP_DigestVerifyInit digest_type p] in
         if EVP_DigestVerifyInit N t1 digest_type p \<noteq> 1
         then (Return [LNil], t2 @ [Call_EVP_MD_CTX_free]) else
         let t3 = (if key_type = NID_rsassaPss
                   then t2 @ [Call_EVP_PKEY_CTX_set_rsa_padding RSA_PKCS1_PSS_PADDING]
                   else t2);
             t4 = t3 @ [Call_EVP_DigestVerify sg msg];
             result = EVP_DigestVerify N t3 sg msg in
         (Return [if result = 0 then LBoolean False
                  else if result \<noteq> 1 then LNil
                  else LBoolean True],
          t4 @ [Call_EVP_MD_CTX_free])))))"

definition Lecdsa_sha256_sign :: "nat \<Rightarrow> native \<Rightarrow> lua_value list \<Rightarrow> outcome \<times> trace" where
  "Lecdsa_sha256_sign B N args = base_evp_sign B N args NID_X9_62_id_ecPublicKey (Some EVP_sha256)"

definition Lecdsa_sha256_verify :: "native \<Rightarrow> lua_value list \<Rightarrow> outcome \<times> trace" where
  "Lecdsa_sha256_verify N args = base_evp_verify N args NID_X9_62_id_ecPublicKey (Some EVP_sha256)"

definition Led25519_sign :: "nat \<Rightarrow> native \<Rightarrow> lua_value list \<Rightarrow> outcome \<times> trace" where
  "Led25519_sign B N args = base_evp_sign B N args NID_ED25519 None"

definition Led25519_verify :: "native \<Rightarrow> lua_value list \<Rightarrow> outcome \<times> trace" where
  "Led25519_verify N args = base_evp_verify N args NID_ED25519 None"

definition Lrsassa_pkcs1_256_sign :: "nat \<Rightarrow> native \<Rightarrow> lua_value list \<Rightarrow> outcome \<times> trace" where
  "Lrsassa_pkcs1_256_sign B N args = base_evp_sign B N args NID_rsaEncryption (Some EVP_sha256)"

definition Lrsassa_pkcs1_256_verify :: "native \<Rightarrow> lua_value list \<Rightarrow> outcome \<times> trace" where
  "Lrsassa_pkcs1_256_verify N args = base_evp_verify N args NID_rsaEncryption (Some EVP_sha256)"

definition Lrsassa_pss_256_sign :: "nat \<Rightarrow> native \<Rightarrow> lua_value list \<Rightarrow> outcome \<times> trace" where
  "Lrsassa_pss_256_sign B N args = base_evp_sign B N args NID_rsassaPss (Some EVP_sha256)"

definition Lrsassa_pss_256_verify :: "native \<Rightarrow> lua_value list \<Rightarrow> outcome \<times> trace" where
  "Lrsassa_pss_256_verify N args = base_evp_verify N args NID_rsassaPss (Some EVP_sha256)"

subsection \<open>The ECDSA signature codec\<close>

text \<open>
  The two integers of a signature are non-negative, so a \<open>BIGNUM\<close> is the natural
  number it holds.  \<open>BN_num_bytes\<close>, \<open>BN_bn2bin\<close> and \<open>BN_bin2bn\<close> are OpenSSL's
  conversions between such a number and its big-endian bytes: the minimal length
  (0 for zero), the minimal big-endian string, and the number a string of \<open>len\<close> bytes
  denotes.  \<open>BN_bin2bn\<close> is not defined for a negative length.  Failure to allocate
  is left out.
\<close>

fun BN_num_bytes :: "nat \<Rightarrow> nat" where
  "BN_num_bytes n = (if n = 0 then 0 else Suc (BN_num_bytes (n div 256)))"

fun BN_bn2bin :: "nat \<Rightarrow> string" where
  "BN_bn2bin n = (if n = 0 then [] else BN_bn2bin (n div 256) @ [char_of (n mod 256)])"

declare BN_num_bytes.simps [simp del] BN_bn2bin.simps [simp del]

definition big_endian :: "string \<Rightarrow> nat" where
  "big_endian bs = foldl (\<lambda>a c. a * 256 + of_char c) 0 bs"

definition BN_bin2bn :: "string \<Rightarrow> int \<Rightarrow> nat option" where
  "BN_bin2bn s len = (if len < 0 then None else Some (big_endian (take (nat len) s)))"

text \<open>
  Lines 453--491.  Each of \<open>r\<close> and \<open>s\<close> is written into a buffer of
  \<open>LUAL_BUFFERSIZE\<close> bytes, of which the first \<open>rlen\<close> (\<open>slen\<close>) are returned.
\<close>

definition Lparse_ecdsa_signature :: "nat \<Rightarrow> native \<Rightarrow> lua_value list \<Rightarrow> outcome" where
  "Lparse_ecdsa_signature LUAL_BUFFERSIZE N args =
    (case luaL_checklstring args 1 of
       Inl e \<Rightarrow> Raise e
     | Inr sig_der \<Rightarrow>
        (case d2i_ECDSA_SIG N sig_der of
           None \<Rightarrow> Return [LNil]
         | Some (r, s) \<Rightarrow>
            (let rlen = BN_num_bytes r;
                 slen = BN_num_bytes s in
             if length (BN_bn2bin r) > LUAL_BUFFERSIZE then Undefined else
             if length (BN_bn2bin s) > LUAL_BUFFERSIZE then Undefined else
             Return [LString (take rlen (BN_bn2bin r)), LString (take slen (BN_bn2bin s))])))"

text \<open>
  Lines 494--525.  The lengths are cast to \<open>int\<close>; the encoding is written into a
  buffer of \<open>LUAL_BUFFERSIZE\<close> bytes.  \<open>i2d_ECDSA_SIG\<close> answers \<open>None\<close> when it
  returns a negative length, which the code passes on to \<open>luaL_addsize\<close>.
\<close>

definition Lbuild_ecdsa_signature :: "nat \<Rightarrow> native \<Rightarrow> lua_value list \<Rightarrow> outcome" where
  "Lbuild_ecdsa_signature LUAL_BUFFERSIZE N args =
    (case luaL_checklstring args 1 of Inl e \<Rightarrow> Raise e | Inr rbin \<Rightarrow>
    (case luaL_checklstring args 2 of Inl e \<Rightarrow> Raise e | Inr sbin \<Rightarrow>
    (case BN_bin2bn rbin (int_of_size (length rbin)) of None \<Rightarrow> Undefined | Some r \<Rightarrow>
    (case BN_bin2bn sbin (int_of_size (length sbin)) of None \<Rightarrow> Undefined | Some s \<Rightarrow>
    (case i2d_ECDSA_SIG N r s of
       None \<Rightarrow> Undefined
     | Some der \<Rightarrow>
         if length der > LUAL_BUFFERSIZE then Undefined else Return [LString der])))))"

subsection \<open>A sample native library\<close>

text \<open>
  One instance of the parameter, on which the entry points can be run.  It is not
  OpenSSL and not part of \<^verbatim>\<open>crypto.c\<close>; it only follows the calling conventions of the
  native interface.  Its cipher copies its input and has one constant tag, which
  \<open>EVP_DecryptFinal_ex\<close> demands to have been set on the context; an update with a
  negative \<open>inl\<close> fails.  The signature of a message is the message reversed; a
  signature of the right length that differs is invalid (0), any other is an error
  (-1); a \<open>NULL\<close> key fails the initialisation.  The codec reads and writes the DER
  encoding of \<open>SEQUENCE { INTEGER r, INTEGER s }\<close> with definite lengths.
\<close>

definition sample_tag :: string where
  "sample_tag = replicate 16 (CHR ''T'')"

definition der_length :: "nat \<Rightarrow> string" where
  "der_length n =
     (if n < 128 then [char_of n] else char_of (128 + BN_num_bytes n) # BN_bn2bin n)"

definition der_integer :: "nat \<Rightarrow> string" where
  "der_integer n =
     (let bs = BN_bn2bin n;
          content = (case bs of
                       [] \<Rightarrow> [CHR 0x00]
                     | b # _ \<Rightarrow> if (128::nat) \<le> of_char b then CHR 0x00 # bs else bs)
      in CHR 0x02 # der_length (length content) @ content)"

definition sample_i2d :: "nat \<Rightarrow> nat \<Rightarrow> string option" where
  "sample_i2d r s =
     (let body = der_integer r @ der_integer s
      in Some (CHR 0x30 # der_length (length body) @ body))"

definition der_read_length :: "string \<Rightarrow> (nat \<times> string) option" where
  "der_read_length bs =
     (case bs of
        [] \<Rightarrow> None
      | b # rest \<Rightarrow>
          (let v = (of_char b :: nat) in
           if v < 128 then Some (v, rest)
           else if v = 128 \<or> length rest < v - 128 then None
           else Some (big_endian (take (v - 128) rest), drop (v - 128) rest)))"

definition der_read_integer :: "string \<Rightarrow> (nat \<times> string) option" where
  "der_read_integer bs =
     (case bs of
        [] \<Rightarrow> None
      | t # rest \<Rightarrow>
          if t \<noteq> CHR 0x02 then None else
          (case der_read_length rest of
             None \<Rightarrow> None
           | Some (n, content) \<Rightarrow>
               if n = 0 \<or> length content < n then None
               else if (128::nat) \<le> of_char (hd content) then None
               else Some (big_endian (take n content), drop n content)))"

definition sample_d2i :: "string \<Rightarrow> (nat \<times> nat) option" where
  "sample_d2i der =
     (case der of
        [] \<Rightarrow> None
      | t # rest \<Rightarrow>
          if t \<noteq> CHR 0x30 then None else
          (case der_read_length rest of
             None \<Rightarrow> None
           | Some (n, body) \<Rightarrow>
               if length body < n then None else
               (case der_read_integer (take n body) of
                  None \<Rightarrow> None
                | Some (r, rest1) \<Rightarrow>
                    (case der_read_integer rest1 of
                       None \<Rightarrow> None
                     | Some (s, rest2) \<Rightarrow> if rest2 = [] then Some (r, s) else None))))"

definition sample_native :: native where
  "sample_native =
     \<lparr>EVP_MD_CTX_new = (\<lambda>t. True),
      EVP_DigestSignInit = (\<lambda>t d k. if k = None then 0 else 1),
      EVP_DigestSign_size = (\<lambda>t m. (1, length m)),
      EVP_DigestSign = (\<lambda>t n m. (1, rev m)),
      EVP_DigestVerifyInit = (\<lambda>t d k. if k = None then 0 else 1),
      EVP_DigestVerify =
        (\<lambda>t sg m. if sg = rev m then 1 else if length sg = length m then 0 else - 1),
      EVP_PKEY_keygen = (\<lambda>t. (1, Some 7)),
      EVP_CIPHER_CTX_new = (\<lambda>t. True),
      EVP_EncryptInit_ex = (\<lambda>t c k i. 1),
      EVP_EncryptUpdate = (\<lambda>t inp inl. if inl < 0 then (0, []) else (1, inp)),
      EVP_EncryptFinal_ex = (\<lambda>t. (1, [])),
      EVP_CTRL_AEAD_GET_TAG = (\<lambda>t. (1, (\<lambda>i. CHR ''T''))),
      EVP_DecryptInit_ex = (\<lambda>t c k i. 1),
      EVP_DecryptUpdate = (\<lambda>t inp inl. if inl < 0 then (0, []) else (1, inp)),
      EVP_CTRL_AEAD_SET_TAG = (\<lambda>t tg. 1),
      EVP_DecryptFinal_ex =
        (\<lambda>t. if Call_EVP_CTRL_AEAD_SET_TAG 16 sample_tag \<in> set t then (1, []) else (0, [])),
      d2i_ECDSA_SIG = sample_d2i,
      i2d_ECDSA_SIG = sample_i2d\<rparr>"

text \<open>The same library when key generation fails and leaves \<open>pkey\<close> at \<open>NULL\<close>.\<close>

definition keygen_failing_native :: native where
  "keygen_failing_native = sample_native\<lparr>EVP_PKEY_keygen := (\<lambda>t. (0, None))\<rparr>"

subsection \<open>The vocabulary of the specification\<close>

text \<open>
  The specification names the failures; the code raises Lua errors or returns \<open>nil\<close>.
  A key of the wrong algorithm is the argument error \<^verbatim>\<open>unexpected key type\<close>
  (\<open>TypeMismatch\<close>), a public key where a private one is needed is the argument error
  \<^verbatim>\<open>private key expected, got public key only\<close> (\<open>CapabilityMismatch\<close>), both for
  argument 1; a failed authentication of AES-GCM is the pair \<open>nil\<close>,
  \<^verbatim>\<open>verify-failed\<close> (\<open>VerifyFailure\<close>).
\<close>

definition TypeMismatch :: lua_error where
  "TypeMismatch = ArgError 1 ''unexpected key type''"

definition CapabilityMismatch :: lua_error where
  "CapabilityMismatch = ArgError 1 ''private key expected, got public key only''"

definition VerifyFailure :: outcome where
  "VerifyFailure = Return [LNil, LString ''verify-failed'']"

text \<open>The native calls \<open>base_evp_verify\<close> has made when it calls \<open>EVP_DigestVerify\<close>.\<close>

definition verify_setup_trace :: "int \<Rightarrow> EVP_MD option \<Rightarrow> pkey option \<Rightarrow> trace" where
  "verify_setup_trace key_type digest_type p =
     [Call_EVP_MD_CTX_new, Call_EVP_DigestVerifyInit digest_type p] @
     (if key_type = NID_rsassaPss
      then [Call_EVP_PKEY_CTX_set_rsa_padding RSA_PKCS1_PSS_PADDING] else [])"

subsection \<open>What is assumed of the native AES-GCM\<close>

text \<open>
  The specification trusts the native library to implement AES-GCM.  Of that, the
  length accounting of the glue needs the following, which OpenSSL documents for GCM
  (a stream mode without padding): an update that succeeds has written exactly as
  many bytes as the \<open>inl\<close> it was given to read, and the decryption's final step writes
  none.  (For encryption the code itself refuses a final step that wrote bytes.)
\<close>

definition gcm_contract :: "native \<Rightarrow> bool" where
  "gcm_contract N \<longleftrightarrow>
     (\<forall>t inp inl. fst (EVP_EncryptUpdate N t inp inl) = 1 \<longrightarrow>
        length (snd (EVP_EncryptUpdate N t inp inl)) = length inp) \<and>
     (\<forall>t inp inl. fst (EVP_DecryptUpdate N t inp inl) \<noteq> 0 \<longrightarrow>
        length (snd (EVP_DecryptUpdate N t inp inl)) = length inp) \<and>
     (\<forall>t. snd (EVP_DecryptFinal_ex N t) = [])"

text \<open>
  The native calls \<open>Laes_gcm_encrypt\<close> has made when it calls \<open>EVP_EncryptUpdate\<close>
  and when it reads the tag, and those \<open>Laes_gcm_decrypt\<close> has made when it calls
  \<open>EVP_DecryptUpdate\<close> and \<open>EVP_DecryptFinal_ex\<close>.
\<close>

definition encrypt_setup_trace :: "EVP_CIPHER \<Rightarrow> string \<Rightarrow> string \<Rightarrow> trace" where
  "encrypt_setup_trace cipher key iv =
     [Call_EVP_CIPHER_CTX_new,
      Call_EVP_EncryptInit_ex (Some cipher) None None,
      Call_EVP_EncryptInit_ex None (Some key) (Some iv)]"

definition encrypt_tag_trace :: "EVP_CIPHER \<Rightarrow> string \<Rightarrow> string \<Rightarrow> string \<Rightarrow> trace" where
  "encrypt_tag_trace cipher key iv plaintext =
     encrypt_setup_trace cipher key iv @
     [Call_EVP_EncryptUpdate (take (nat (int_of_size (length plaintext))) plaintext)
        (int_of_size (length plaintext)),
      Call_EVP_EncryptFinal_ex]"

definition decrypt_setup_trace :: "EVP_CIPHER \<Rightarrow> string \<Rightarrow> string \<Rightarrow> trace" where
  "decrypt_setup_trace cipher key iv =
     [Call_EVP_CIPHER_CTX_new,
      Call_EVP_DecryptInit_ex (Some cipher) None None,
      Call_EVP_DecryptInit_ex None (Some key) (Some iv)]"

definition decrypt_final_trace :: "EVP_CIPHER \<Rightarrow> string \<Rightarrow> string \<Rightarrow> string \<Rightarrow> trace" where
  "decrypt_final_trace cipher key iv ciphertext =
     decrypt_setup_trace cipher key iv @
     [Call_EVP_DecryptUpdate
        (take (nat (int_of_size (length ciphertext - 16))) ciphertext)
        (int_of_size (length ciphertext - 16)),
      Call_EVP_CTRL_AEAD_SET_TAG 16 (drop (length ciphertext - 16) ciphertext)]"

subsection \<open>Minimal big-endian strings\<close>

text \<open>A byte string without a leading zero byte; the empty string is one.\<close>

definition no_leading_zero :: "string \<Rightarrow> bool" where
  "no_leading_zero bs = (case bs of [] \<Rightarrow> True | b # _ \<Rightarrow> b \<noteq> CHR 0x00)"

section \<open>Properties\<close>

subsection \<open>Argument checks of the AEAD entry points\<close>

lemma show_dec_16: "show_dec 16 = ''16''"
  by (simp add: show_dec.simps digit_char_def)

lemma show_dec_32: "show_dec 32 = ''32''"
  by (simp add: show_dec.simps digit_char_def)

lemma checklstring_Cons1: "luaL_checklstring (LString a # rest) (Suc 0) = Inr a"
  by (simp add: luaL_checklstring_def arg_at_def)

lemma checklstring_Cons2: "luaL_checklstring (x # LString b # rest) 2 = Inr b"
  by (simp add: luaL_checklstring_def arg_at_def)

lemma checklstring_Cons3: "luaL_checklstring (x # y # LString c # rest) 3 = Inr c"
  by (simp add: luaL_checklstring_def arg_at_def)

lemmas checklstring_Cons = checklstring_Cons1 checklstring_Cons2 checklstring_Cons3

lemma encrypt_wrong_length:
  assumes "length key \<noteq> klen \<or> length iv \<noteq> 12"
  shows "Laes_gcm_encrypt N (LString key # LString iv # LString x # rest) cipher klen =
         (Raise (if length key \<noteq> klen
                 then RuntimeError (''key must be '' @ show_dec klen @ '' bytes'')
                 else ArgError 2 ''iv must be 12 bytes''), [])"
  using assms by (auto simp: Laes_gcm_encrypt_def checklstring_Cons)

lemma decrypt_wrong_length:
  assumes "length key \<noteq> klen \<or> length iv \<noteq> 12"
  shows "Laes_gcm_decrypt N (LString key # LString iv # LString x # rest) cipher klen =
         (Raise (if length key \<noteq> klen
                 then RuntimeError (''key must be '' @ show_dec klen @ '' bytes'')
                 else ArgError 2 ''iv must be 12 bytes''), [])"
  using assms by (auto simp: Laes_gcm_decrypt_def checklstring_Cons)

text \<open>
  C7.  Each of the four AEAD entry points, called with byte strings as its first three
  arguments (and any further arguments), of which the key has not the length of the
  variant (16 for AES-128-GCM, 32 for AES-256-GCM) or the nonce has not 12 bytes:
  the call raises the error that names the parameter and the length expected (the key
  first; these two errors are the \<open>InvalidArgument\<close> of the specification), it has
  made no native call (the trace is empty), and it returns nothing.
\<close>

theorem aead_wrong_length_rejected:
  assumes "(f, klen) \<in> {(Laes_128_gcm_encrypt, 16), (Laes_256_gcm_encrypt, 32),
                        (Laes_128_gcm_decrypt, 16), (Laes_256_gcm_decrypt, 32)}"
    and "length key \<noteq> klen \<or> length iv \<noteq> 12"
  shows "f N (LString key # LString iv # LString x # rest) =
         (Raise (if length key \<noteq> klen
                 then RuntimeError (if klen = 16 then ''key must be 16 bytes''
                                    else ''key must be 32 bytes'')
                 else ArgError 2 ''iv must be 12 bytes''), [])"
proof -
  consider "f = Laes_128_gcm_encrypt" "klen = 16" | "f = Laes_256_gcm_encrypt" "klen = 32"
    | "f = Laes_128_gcm_decrypt" "klen = 16" | "f = Laes_256_gcm_decrypt" "klen = 32"
    using assms(1) by auto
  then show ?thesis
  proof cases
    case 1
    then show ?thesis
      using assms(2) encrypt_wrong_length [of key 16 iv N x rest EVP_aes_128_gcm]
      by (simp add: Laes_128_gcm_encrypt_def show_dec_16)
  next
    case 2
    then show ?thesis
      using assms(2) encrypt_wrong_length [of key 32 iv N x rest EVP_aes_256_gcm]
      by (simp add: Laes_256_gcm_encrypt_def show_dec_32)
  next
    case 3
    then show ?thesis
      using assms(2) decrypt_wrong_length [of key 16 iv N x rest EVP_aes_128_gcm]
      by (simp add: Laes_128_gcm_decrypt_def show_dec_16)
  next
    case 4
    then show ?thesis
      using assms(2) decrypt_wrong_length [of key 32 iv N x rest EVP_aes_256_gcm]
      by (simp add: Laes_256_gcm_decrypt_def show_dec_32)
  qed
qed

theorem aead_wrong_length_rejected_witness:
  "length ''0123456789abcdef'' = 16 \<and> length ''short nonce'' \<noteq> 12 \<and>
   Laes_128_gcm_decrypt sample_native
     [LString ''0123456789abcdef'', LString ''short nonce'', LString ''data'', LNil] =
   (Raise (ArgError 2 ''iv must be 12 bytes''), [])"
  using aead_wrong_length_rejected
    [of Laes_128_gcm_decrypt 16 "''0123456789abcdef''" "''short nonce''" sample_native "''data''" "[LNil]"]
  by simp

subsection \<open>Key generation\<close>

lemma generate_ed25519_keypair_result:
  "Lgenerate_ed25519_keypair N args =
     (Return [LKey \<lparr>wrapped =
                snd (EVP_PKEY_keygen N
                  [Call_EVP_PKEY_CTX_new_id EVP_PKEY_ED25519, Call_EVP_PKEY_keygen_init]),
              uv_type = Some NID_ED25519, uv_private = True\<rparr>],
      [Call_EVP_PKEY_CTX_new_id EVP_PKEY_ED25519, Call_EVP_PKEY_keygen_init,
       Call_EVP_PKEY_keygen, Call_EVP_PKEY_CTX_free])"
  by (simp add: Lgenerate_ed25519_keypair_def push_pkey_def NID_ED25519_def split: prod.splits)

text \<open>
  C2.  \<open>generate_ed25519_keypair\<close> always returns a handle tagged Ed25519 and private,
  whatever the native calls answer: it reads none of their return codes.  When
  \<open>EVP_PKEY_keygen\<close> fails (code 0, \<open>pkey\<close> left at \<open>NULL\<close>) the call raises nothing and
  returns a handle that wraps the \<open>NULL\<close> pointer, where the claim demands a failure.
  The sibling \<open>import_private_pem\<close> tests \<open>pkey\<close> before \<open>push_pkey\<close>.
\<close>

theorem generate_ed25519_keypair_wraps_null:
  "EVP_PKEY_keygen keygen_failing_native
     [Call_EVP_PKEY_CTX_new_id EVP_PKEY_ED25519, Call_EVP_PKEY_keygen_init] = (0, None) \<and>
   fst (Lgenerate_ed25519_keypair keygen_failing_native []) =
     Return [LKey \<lparr>wrapped = None, uv_type = Some NID_ED25519, uv_private = True\<rparr>]"
  by (simp add: generate_ed25519_keypair_result keygen_failing_native_def)

subsection \<open>The handle check of signing and verifying\<close>

lemma checkudata_Cons1: "luaL_checkudata (LKey h # rest) (Suc 0) = Inr h"
  by (simp add: luaL_checkudata_def arg_at_def)

lemma pkey_from_arg_sign:
  "pkey_from_arg (LKey h # rest) (Suc 0) T 1 =
     (if T \<noteq> 0 \<and> got_type h \<noteq> T then Inl TypeMismatch
      else if \<not> uv_private h then Inl CapabilityMismatch
      else Inr (wrapped h))"
  by (simp add: pkey_from_arg_def checkudata_Cons1 TypeMismatch_def CapabilityMismatch_def)

lemma pkey_from_arg_verify:
  "pkey_from_arg (LKey h # rest) (Suc 0) T 0 =
     (if T \<noteq> 0 \<and> got_type h \<noteq> T then Inl TypeMismatch else Inr (wrapped h))"
  by (simp add: pkey_from_arg_def checkudata_Cons1 TypeMismatch_def)

lemma base_evp_sign_public_only:
  assumes "\<not> uv_private h" "expected_key_type kt \<noteq> 0"
  shows "base_evp_sign B N (LKey h # rest) kt d =
         (Raise (if got_type h = expected_key_type kt then CapabilityMismatch else TypeMismatch), [])"
  using assms by (simp add: base_evp_sign_def pkey_from_arg_sign)

lemma base_evp_sign_mismatch:
  assumes "got_type h \<noteq> expected_key_type kt" "expected_key_type kt \<noteq> 0"
  shows "base_evp_sign B N (LKey h # rest) kt d = (Raise TypeMismatch, [])"
  using assms by (simp add: base_evp_sign_def pkey_from_arg_sign)

lemma base_evp_verify_mismatch:
  assumes "got_type h \<noteq> expected_key_type kt" "expected_key_type kt \<noteq> 0"
  shows "base_evp_verify N (LKey h # rest) kt d = (Raise TypeMismatch, [])"
  using assms by (simp add: base_evp_verify_def pkey_from_arg_verify)

text \<open>
  C3, as the code has it.  A signing operation called on a handle without private
  material raises before any native call (the trace is empty: no context is created or
  initialised, nothing is signed).  The error is \<open>CapabilityMismatch\<close> when the handle's
  type tag is the one the operation expects, and \<open>TypeMismatch\<close> when it is not: the
  type is checked first.
\<close>

theorem sign_public_only_rejected:
  assumes "(f, T) \<in> {(Led25519_sign, NID_ED25519), (Lrsassa_pkcs1_256_sign, NID_rsaEncryption),
                     (Lrsassa_pss_256_sign, NID_rsaEncryption),
                     (Lecdsa_sha256_sign, NID_X9_62_id_ecPublicKey)}"
    and "\<not> uv_private h"
  shows "f B N (LKey h # rest) =
         (Raise (if got_type h = T then CapabilityMismatch else TypeMismatch), [])"
proof -
  consider "f = Led25519_sign" "T = NID_ED25519"
    | "f = Lrsassa_pkcs1_256_sign" "T = NID_rsaEncryption"
    | "f = Lrsassa_pss_256_sign" "T = NID_rsaEncryption"
    | "f = Lecdsa_sha256_sign" "T = NID_X9_62_id_ecPublicKey"
    using assms(1) by auto
  then show ?thesis
  proof cases
    case 1
    then show ?thesis
      using base_evp_sign_public_only [OF assms(2), of NID_ED25519 B N rest None]
      by (simp add: Led25519_sign_def expected_key_type_def NID_ED25519_def NID_rsassaPss_def)
  next
    case 2
    then show ?thesis
      using base_evp_sign_public_only [OF assms(2), of NID_rsaEncryption B N rest "Some EVP_sha256"]
      by (simp add: Lrsassa_pkcs1_256_sign_def expected_key_type_def NID_rsaEncryption_def
          NID_rsassaPss_def)
  next
    case 3
    then show ?thesis
      using base_evp_sign_public_only [OF assms(2), of NID_rsassaPss B N rest "Some EVP_sha256"]
      by (simp add: Lrsassa_pss_256_sign_def expected_key_type_def NID_rsaEncryption_def
          NID_rsassaPss_def)
  next
    case 4
    then show ?thesis
      using base_evp_sign_public_only
        [OF assms(2), of NID_X9_62_id_ecPublicKey B N rest "Some EVP_sha256"]
      by (simp add: Lecdsa_sha256_sign_def expected_key_type_def NID_X9_62_id_ecPublicKey_def
          NID_rsassaPss_def)
  qed
qed

theorem sign_public_only_rejected_witness:
  "\<not> uv_private \<lparr>wrapped = Some 3, uv_type = Some NID_ED25519, uv_private = False\<rparr> \<and>
   Led25519_sign 1024 sample_native
     [LKey \<lparr>wrapped = Some 3, uv_type = Some NID_ED25519, uv_private = False\<rparr>,
      LString ''message''] =
   (Raise CapabilityMismatch, [])"
  using sign_public_only_rejected
    [of Led25519_sign NID_ED25519
        "\<lparr>wrapped = Some 3, uv_type = Some NID_ED25519, uv_private = False\<rparr>"
        1024 sample_native "[LString ''message'']"]
  by (simp add: got_type_def)

text \<open>
  The claim C3 as it is written fails: \<open>ed25519_sign\<close> on a public RSA key (as
  \<open>import_public_pem\<close> makes it) raises \<open>TypeMismatch\<close>, not \<open>CapabilityMismatch\<close>.
\<close>

theorem sign_public_only_counterexample:
  "\<not> uv_private \<lparr>wrapped = Some 3, uv_type = Some NID_rsaEncryption, uv_private = False\<rparr> \<and>
   Led25519_sign 1024 sample_native
     [LKey \<lparr>wrapped = Some 3, uv_type = Some NID_rsaEncryption, uv_private = False\<rparr>,
      LString ''message''] =
   (Raise TypeMismatch, []) \<and>
   TypeMismatch \<noteq> CapabilityMismatch"
  by (simp add: Led25519_sign_def base_evp_sign_def pkey_from_arg_sign expected_key_type_def
      got_type_def NID_ED25519_def NID_rsassaPss_def NID_rsaEncryption_def TypeMismatch_def
      CapabilityMismatch_def)

subsection \<open>The result of verifying\<close>

lemma base_evp_verify_checked:
  assumes "got_type h = expected_key_type kt"
  shows "base_evp_verify N (LKey h # LString msg # LString sg # rest) kt d =
    (if EVP_DigestVerifyInit N [Call_EVP_MD_CTX_new] d (wrapped h) \<noteq> 1
     then (Return [LNil],
           [Call_EVP_MD_CTX_new, Call_EVP_DigestVerifyInit d (wrapped h), Call_EVP_MD_CTX_free])
     else (Return [if EVP_DigestVerify N (verify_setup_trace kt d (wrapped h)) sg msg = 0
                   then LBoolean False
                   else if EVP_DigestVerify N (verify_setup_trace kt d (wrapped h)) sg msg \<noteq> 1
                   then LNil else LBoolean True],
           verify_setup_trace kt d (wrapped h) @
           [Call_EVP_DigestVerify sg msg, Call_EVP_MD_CTX_free]))"
  using assms
  by (simp add: base_evp_verify_def pkey_from_arg_verify checklstring_Cons2 checklstring_Cons3
      verify_setup_trace_def Let_def)

lemma base_evp_verify_three_way:
  assumes "got_type h = expected_key_type kt"
  shows "(let init = EVP_DigestVerifyInit N [Call_EVP_MD_CTX_new] d (wrapped h);
              r = EVP_DigestVerify N (verify_setup_trace kt d (wrapped h)) sg msg;
              res = fst (base_evp_verify N (LKey h # LString msg # LString sg # rest) kt d)
          in (res = Return [LBoolean True] \<or> res = Return [LBoolean False] \<or> res = Return [LNil]) \<and>
             (res = Return [LBoolean True] \<longleftrightarrow> init = 1 \<and> r = 1) \<and>
             (res = Return [LBoolean False] \<longleftrightarrow> init = 1 \<and> r = 0) \<and>
             (res = Return [LNil] \<longleftrightarrow> init \<noteq> 1 \<or> (r \<noteq> 0 \<and> r \<noteq> 1)))"
  by (simp add: base_evp_verify_checked [OF assms] Let_def)

text \<open>
  C6.  Each of the four verify operations, called with a handle that passes the type
  check, a message and a signature, returns exactly one value, and that value is
  \<open>true\<close> (valid), \<open>false\<close> (invalid) or \<open>nil\<close> (error).  It is \<open>true\<close> exactly when
  the initialisation and \<open>EVP_DigestVerify\<close> both return 1, \<open>false\<close> exactly when
  \<open>EVP_DigestVerify\<close> returns 0 (the signature does not verify), and \<open>nil\<close> exactly
  when the native library fails: the initialisation does not return 1, or
  \<open>EVP_DigestVerify\<close> returns a code other than 0 and 1.  The three values differ, so
  invalid and error are never the same result.
\<close>

theorem verify_three_way_result:
  assumes "(f, kt, d) \<in>
      {(Led25519_verify, NID_ED25519, None),
       (Lrsassa_pkcs1_256_verify, NID_rsaEncryption, Some EVP_sha256),
       (Lrsassa_pss_256_verify, NID_rsassaPss, Some EVP_sha256),
       (Lecdsa_sha256_verify, NID_X9_62_id_ecPublicKey, Some EVP_sha256)}"
    and "got_type h = expected_key_type kt"
  shows "(let init = EVP_DigestVerifyInit N [Call_EVP_MD_CTX_new] d (wrapped h);
              r = EVP_DigestVerify N (verify_setup_trace kt d (wrapped h)) sg msg;
              res = fst (f N (LKey h # LString msg # LString sg # rest))
          in (res = Return [LBoolean True] \<or> res = Return [LBoolean False] \<or> res = Return [LNil]) \<and>
             (res = Return [LBoolean True] \<longleftrightarrow> init = 1 \<and> r = 1) \<and>
             (res = Return [LBoolean False] \<longleftrightarrow> init = 1 \<and> r = 0) \<and>
             (res = Return [LNil] \<longleftrightarrow> init \<noteq> 1 \<or> (r \<noteq> 0 \<and> r \<noteq> 1)))"
proof -
  have "f = (\<lambda>N args. base_evp_verify N args kt d)"
    using assms(1)
    by (auto simp: Led25519_verify_def Lrsassa_pkcs1_256_verify_def Lrsassa_pss_256_verify_def
        Lecdsa_sha256_verify_def fun_eq_iff)
  then show ?thesis
    using base_evp_verify_three_way [OF assms(2), of N d sg msg rest] by simp
qed

theorem verify_three_way_result_witness:
  "got_type \<lparr>wrapped = Some 3, uv_type = Some NID_ED25519, uv_private = False\<rparr> =
     expected_key_type NID_ED25519 \<and>
   fst (Led25519_verify sample_native
     [LKey \<lparr>wrapped = Some 3, uv_type = Some NID_ED25519, uv_private = False\<rparr>,
      LString ''abc'', LString ''cba'']) = Return [LBoolean True] \<and>
   fst (Led25519_verify sample_native
     [LKey \<lparr>wrapped = Some 3, uv_type = Some NID_ED25519, uv_private = False\<rparr>,
      LString ''abc'', LString ''xyz'']) = Return [LBoolean False] \<and>
   fst (Led25519_verify sample_native
     [LKey \<lparr>wrapped = Some 3, uv_type = Some NID_ED25519, uv_private = False\<rparr>,
      LString ''abc'', LString ''garbage'']) = Return [LNil]"
  using
    verify_three_way_result [of Led25519_verify NID_ED25519 None
      "\<lparr>wrapped = Some 3, uv_type = Some NID_ED25519, uv_private = False\<rparr>"
      sample_native "''cba''" "''abc''" "[]"]
    verify_three_way_result [of Led25519_verify NID_ED25519 None
      "\<lparr>wrapped = Some 3, uv_type = Some NID_ED25519, uv_private = False\<rparr>"
      sample_native "''xyz''" "''abc''" "[]"]
    verify_three_way_result [of Led25519_verify NID_ED25519 None
      "\<lparr>wrapped = Some 3, uv_type = Some NID_ED25519, uv_private = False\<rparr>"
      sample_native "''garbage''" "''abc''" "[]"]
  by (simp add: got_type_def expected_key_type_def NID_ED25519_def NID_rsassaPss_def
      sample_native_def Let_def)

subsection \<open>RSA-PSS\<close>

lemma base_evp_sign_trace_prefix:
  assumes "got_type h = expected_key_type kt" "uv_private h" "EVP_MD_CTX_new N []"
    "EVP_DigestSignInit N [Call_EVP_MD_CTX_new] d (wrapped h) = 1"
  shows "take (if kt = NID_rsassaPss then 3 else 2)
           (snd (base_evp_sign B N (LKey h # rest) kt d)) =
     [Call_EVP_MD_CTX_new, Call_EVP_DigestSignInit d (wrapped h)] @
     (if kt = NID_rsassaPss then [Call_EVP_PKEY_CTX_set_rsa_padding RSA_PKCS1_PSS_PADDING] else [])"
  using assms
  by (simp add: base_evp_sign_def pkey_from_arg_sign Let_def split: prod.splits)

lemma base_evp_sign_no_padding:
  assumes "kt \<noteq> NID_rsassaPss"
  shows "Call_EVP_PKEY_CTX_set_rsa_padding pad \<notin> set (snd (base_evp_sign B N args kt d))"
  using assms
  by (simp add: base_evp_sign_def Let_def split: sum.splits prod.splits)

lemma base_evp_verify_no_padding:
  assumes "kt \<noteq> NID_rsassaPss"
  shows "Call_EVP_PKEY_CTX_set_rsa_padding pad \<notin> set (snd (base_evp_verify N args kt d))"
  using assms
  by (simp add: base_evp_verify_def Let_def split: sum.splits prod.splits)

text \<open>
  C9.  The two RSA-PSS operations ask the handle check for the key type of
  RSA-PKCS1v1.5 (\<open>NID_rsaEncryption\<close>): a handle of another type is refused with
  \<open>TypeMismatch\<close>.  When the digest initialisation has returned 1, the next native call
  selects PSS padding on the context (third call of signing, after the context is
  created and \<open>EVP_DigestSignInit\<close>; third of verifying, before \<open>EVP_DigestVerify\<close>).
  The two RSA-PKCS1v1.5 operations never call \<open>EVP_PKEY_CTX_set_rsa_padding\<close>, whatever
  their arguments: the padding stays the native default.
\<close>

theorem pss_rsa_key_and_padding:
  "expected_key_type NID_rsassaPss = expected_key_type NID_rsaEncryption \<and>
   expected_key_type NID_rsassaPss = NID_rsaEncryption \<and>
   (got_type h' \<noteq> NID_rsaEncryption \<longrightarrow>
      Lrsassa_pss_256_sign B N (LKey h' # rest) = (Raise TypeMismatch, []) \<and>
      Lrsassa_pss_256_verify N (LKey h' # rest) = (Raise TypeMismatch, [])) \<and>
   (got_type h = NID_rsaEncryption \<and> uv_private h \<and> EVP_MD_CTX_new N [] \<and>
    EVP_DigestSignInit N [Call_EVP_MD_CTX_new] (Some EVP_sha256) (wrapped h) = 1 \<longrightarrow>
      take 3 (snd (Lrsassa_pss_256_sign B N (LKey h # rest1))) =
        [Call_EVP_MD_CTX_new, Call_EVP_DigestSignInit (Some EVP_sha256) (wrapped h),
         Call_EVP_PKEY_CTX_set_rsa_padding RSA_PKCS1_PSS_PADDING]) \<and>
   (got_type h = NID_rsaEncryption \<and>
    EVP_DigestVerifyInit N [Call_EVP_MD_CTX_new] (Some EVP_sha256) (wrapped h) = 1 \<longrightarrow>
      snd (Lrsassa_pss_256_verify N (LKey h # LString msg # LString sg # rest2)) =
        [Call_EVP_MD_CTX_new, Call_EVP_DigestVerifyInit (Some EVP_sha256) (wrapped h),
         Call_EVP_PKEY_CTX_set_rsa_padding RSA_PKCS1_PSS_PADDING,
         Call_EVP_DigestVerify sg msg, Call_EVP_MD_CTX_free]) \<and>
   (\<forall>pad args. Call_EVP_PKEY_CTX_set_rsa_padding pad \<notin> set (snd (Lrsassa_pkcs1_256_sign B N args)) \<and>
               Call_EVP_PKEY_CTX_set_rsa_padding pad \<notin> set (snd (Lrsassa_pkcs1_256_verify N args)))"
proof -
  have e: "expected_key_type NID_rsassaPss = NID_rsaEncryption"
    "expected_key_type NID_rsaEncryption = NID_rsaEncryption"
    by (simp_all add: expected_key_type_def)
  have nz: "NID_rsaEncryption \<noteq> 0" "NID_rsaEncryption \<noteq> NID_rsassaPss"
    by (simp_all add: NID_rsaEncryption_def NID_rsassaPss_def)
  have a: "got_type h' \<noteq> NID_rsaEncryption \<Longrightarrow>
      Lrsassa_pss_256_sign B N (LKey h' # rest) = (Raise TypeMismatch, []) \<and>
      Lrsassa_pss_256_verify N (LKey h' # rest) = (Raise TypeMismatch, [])"
    using base_evp_sign_mismatch [of h' NID_rsassaPss B N rest "Some EVP_sha256"]
      base_evp_verify_mismatch [of h' NID_rsassaPss N rest "Some EVP_sha256"]
    by (simp add: e nz Lrsassa_pss_256_sign_def Lrsassa_pss_256_verify_def)
  have b: "got_type h = NID_rsaEncryption \<and> uv_private h \<and> EVP_MD_CTX_new N [] \<and>
    EVP_DigestSignInit N [Call_EVP_MD_CTX_new] (Some EVP_sha256) (wrapped h) = 1 \<Longrightarrow>
      take 3 (snd (Lrsassa_pss_256_sign B N (LKey h # rest1))) =
        [Call_EVP_MD_CTX_new, Call_EVP_DigestSignInit (Some EVP_sha256) (wrapped h),
         Call_EVP_PKEY_CTX_set_rsa_padding RSA_PKCS1_PSS_PADDING]"
    using base_evp_sign_trace_prefix [of h NID_rsassaPss N "Some EVP_sha256" B rest1]
    by (simp add: e Lrsassa_pss_256_sign_def)
  have c: "got_type h = NID_rsaEncryption \<and>
    EVP_DigestVerifyInit N [Call_EVP_MD_CTX_new] (Some EVP_sha256) (wrapped h) = 1 \<Longrightarrow>
      snd (Lrsassa_pss_256_verify N (LKey h # LString msg # LString sg # rest2)) =
        [Call_EVP_MD_CTX_new, Call_EVP_DigestVerifyInit (Some EVP_sha256) (wrapped h),
         Call_EVP_PKEY_CTX_set_rsa_padding RSA_PKCS1_PSS_PADDING,
         Call_EVP_DigestVerify sg msg, Call_EVP_MD_CTX_free]"
    using base_evp_verify_checked [of h NID_rsassaPss N msg sg rest2 "Some EVP_sha256"]
    by (simp add: e Lrsassa_pss_256_verify_def verify_setup_trace_def)
  have d: "Call_EVP_PKEY_CTX_set_rsa_padding pad \<notin> set (snd (Lrsassa_pkcs1_256_sign B N args)) \<and>
           Call_EVP_PKEY_CTX_set_rsa_padding pad \<notin> set (snd (Lrsassa_pkcs1_256_verify N args))"
    for pad args
    using base_evp_sign_no_padding [OF nz(2)] base_evp_verify_no_padding [OF nz(2)]
    by (simp add: Lrsassa_pkcs1_256_sign_def Lrsassa_pkcs1_256_verify_def)
  from a b c d show ?thesis
    by (simp add: e)
qed

theorem pss_rsa_key_and_padding_witness:
  "Lrsassa_pss_256_sign 1024 sample_native
     [LKey \<lparr>wrapped = Some 3, uv_type = Some NID_ED25519, uv_private = True\<rparr>, LString ''abc''] =
     (Raise TypeMismatch, []) \<and>
   take 3 (snd (Lrsassa_pss_256_sign 1024 sample_native
     [LKey \<lparr>wrapped = Some 5, uv_type = Some NID_rsaEncryption, uv_private = True\<rparr>,
      LString ''abc''])) =
     [Call_EVP_MD_CTX_new, Call_EVP_DigestSignInit (Some EVP_sha256) (Some 5),
      Call_EVP_PKEY_CTX_set_rsa_padding RSA_PKCS1_PSS_PADDING] \<and>
   snd (Lrsassa_pss_256_verify sample_native
     [LKey \<lparr>wrapped = Some 5, uv_type = Some NID_rsaEncryption, uv_private = True\<rparr>,
      LString ''abc'', LString ''cba'']) =
     [Call_EVP_MD_CTX_new, Call_EVP_DigestVerifyInit (Some EVP_sha256) (Some 5),
      Call_EVP_PKEY_CTX_set_rsa_padding RSA_PKCS1_PSS_PADDING,
      Call_EVP_DigestVerify ''cba'' ''abc'', Call_EVP_MD_CTX_free]"
proof -
  have g1: "got_type \<lparr>wrapped = Some 3, uv_type = Some NID_ED25519, uv_private = True\<rparr> \<noteq>
      NID_rsaEncryption"
    by (simp add: got_type_def NID_ED25519_def NID_rsaEncryption_def)
  have g2: "got_type \<lparr>wrapped = Some 5, uv_type = Some NID_rsaEncryption, uv_private = True\<rparr> =
      NID_rsaEncryption"
    by (simp add: got_type_def)
  have n1: "EVP_MD_CTX_new sample_native []"
    and n2: "EVP_DigestSignInit sample_native [Call_EVP_MD_CTX_new] (Some EVP_sha256) (Some 5) = 1"
    and n3: "EVP_DigestVerifyInit sample_native [Call_EVP_MD_CTX_new] (Some EVP_sha256) (Some 5) = 1"
    by (simp_all add: sample_native_def)
  show ?thesis
    using pss_rsa_key_and_padding
      [of "\<lparr>wrapped = Some 3, uv_type = Some NID_ED25519, uv_private = True\<rparr>"
          1024 sample_native "[LString ''abc'']"
          "\<lparr>wrapped = Some 5, uv_type = Some NID_rsaEncryption, uv_private = True\<rparr>"
          "[LString ''abc'']" "''abc''" "''cba''" "[]"]
      g1 g2 n1 n2 n3
    by simp
qed

subsection \<open>AES-GCM: lengths, the tag and the round trip\<close>






lemma int_of_size_small: "int n \<le> INT_MAX \<Longrightarrow> int_of_size n = int n"
  by (simp add: int_of_size_def INT_MAX_def Let_def)

lemma aes_gcm_encrypt_native_Return:
  assumes "fst (aes_gcm_encrypt_native N c key iv pt) = Return vs"
  shows "fst (EVP_EncryptUpdate N (encrypt_setup_trace c key iv)
                (take (nat (int_of_size (length pt))) pt) (int_of_size (length pt))) = 1 \<and>
         length (snd (EVP_EncryptUpdate N (encrypt_setup_trace c key iv)
                (take (nat (int_of_size (length pt))) pt) (int_of_size (length pt)))) \<le> length pt \<and>
         vs = [LString (snd (EVP_EncryptUpdate N (encrypt_setup_trace c key iv)
                (take (nat (int_of_size (length pt))) pt) (int_of_size (length pt))) @
               map (snd (EVP_CTRL_AEAD_GET_TAG N (encrypt_tag_trace c key iv pt))) [0..<16])]"
proof -
  define inl where "inl = int_of_size (length pt)"
  define inp where "inp = take (nat inl) pt"
  obtain ret4 ct where u: "EVP_EncryptUpdate N (encrypt_setup_trace c key iv) inp inl = (ret4, ct)"
    by fastforce
  obtain ret5 fin where f: "EVP_EncryptFinal_ex N
      (encrypt_setup_trace c key iv @ [Call_EVP_EncryptUpdate inp inl]) = (ret5, fin)"
    by fastforce
  obtain ret6 tag where g: "EVP_CTRL_AEAD_GET_TAG N (encrypt_tag_trace c key iv pt) = (ret6, tag)"
    by fastforce
  have "fst (aes_gcm_encrypt_native N c key iv pt) = Return vs \<longrightarrow>
        ret4 = 1 \<and> length ct \<le> length pt \<and> vs = [LString (ct @ map tag [0..<16])]"
    using u f g
    unfolding aes_gcm_encrypt_native_def encrypt_setup_trace_def encrypt_tag_trace_def
      inl_def [symmetric] inp_def [symmetric]
    apply (simp only: Let_def inl_def [symmetric] inp_def [symmetric])
    apply (simp del: upt_rec_numeral)
    done
  then show ?thesis
    using assms u g by (simp add: inl_def inp_def)
qed


lemma aes_gcm_decrypt_native_final:
  assumes "Call_EVP_DecryptFinal_ex \<in> set (snd (aes_gcm_decrypt_native N c key iv ct))"
  shows "fst (EVP_DecryptUpdate N (decrypt_setup_trace c key iv)
                (take (nat (int_of_size (length ct - 16))) ct) (int_of_size (length ct - 16))) \<noteq> 0 \<and>
         length (snd (EVP_DecryptUpdate N (decrypt_setup_trace c key iv)
                (take (nat (int_of_size (length ct - 16))) ct) (int_of_size (length ct - 16)))) \<le> length ct \<and>
         fst (aes_gcm_decrypt_native N c key iv ct) =
          (if length (snd (EVP_DecryptUpdate N (decrypt_setup_trace c key iv)
                (take (nat (int_of_size (length ct - 16))) ct) (int_of_size (length ct - 16)))) +
              length (snd (EVP_DecryptFinal_ex N (decrypt_final_trace c key iv ct))) > length ct
           then Undefined
           else if fst (EVP_DecryptFinal_ex N (decrypt_final_trace c key iv ct)) \<le> 0
           then VerifyFailure
           else Return [LString (snd (EVP_DecryptUpdate N (decrypt_setup_trace c key iv)
                (take (nat (int_of_size (length ct - 16))) ct) (int_of_size (length ct - 16))) @
                 snd (EVP_DecryptFinal_ex N (decrypt_final_trace c key iv ct)))])"
proof -
  define inl where "inl = int_of_size (length ct - 16)"
  define inp where "inp = take (nat inl) ct"
  define tg where "tg = drop (length ct - 16) ct"
  obtain ret4 p where u: "EVP_DecryptUpdate N (decrypt_setup_trace c key iv) inp inl = (ret4, p)"
    by fastforce
  obtain ret fin where f: "EVP_DecryptFinal_ex N (decrypt_final_trace c key iv ct) = (ret, fin)"
    by fastforce
  have "Call_EVP_DecryptFinal_ex \<in> set (snd (aes_gcm_decrypt_native N c key iv ct)) \<longrightarrow>
        ret4 \<noteq> 0 \<and> length p \<le> length ct \<and>
        fst (aes_gcm_decrypt_native N c key iv ct) =
          (if length p + length fin > length ct then Undefined
           else if ret \<le> 0 then VerifyFailure else Return [LString (p @ fin)])"
    using u f
    unfolding aes_gcm_decrypt_native_def decrypt_setup_trace_def decrypt_final_trace_def
      VerifyFailure_def
    apply (simp only: Let_def inl_def [symmetric] inp_def [symmetric] tg_def [symmetric])
    apply simp
    done
  then show ?thesis
    using assms u f by (simp add: inl_def inp_def)
qed

lemma Laes_gcm_encrypt_args:
  "Laes_gcm_encrypt N [LString key, LString iv, LString pt] c klen =
     (if length key \<noteq> klen
      then (Raise (RuntimeError (''key must be '' @ show_dec klen @ '' bytes'')), [])
      else if length iv \<noteq> 12 then (Raise (ArgError 2 ''iv must be 12 bytes''), [])
      else aes_gcm_encrypt_native N c key iv pt)"
  by (simp add: Laes_gcm_encrypt_def checklstring_Cons)

lemma Laes_gcm_decrypt_args:
  "Laes_gcm_decrypt N [LString key, LString iv, LString ct] c klen =
     (if length key \<noteq> klen
      then (Raise (RuntimeError (''key must be '' @ show_dec klen @ '' bytes'')), [])
      else if length iv \<noteq> 12 then (Raise (ArgError 2 ''iv must be 12 bytes''), [])
      else if \<not> 16 < length ct
      then (Raise (ArgError 3 ''ciphertext must be at least 16 bytes (including tag)''), [])
      else aes_gcm_decrypt_native N c key iv ct)"
  by (simp add: Laes_gcm_decrypt_def checklstring_Cons)

lemma Laes_gcm_encrypt_Return:
  assumes "fst (Laes_gcm_encrypt N [LString key, LString iv, LString pt] c klen) = Return vs"
  shows "length key = klen \<and> length iv = 12 \<and>
         fst (aes_gcm_encrypt_native N c key iv pt) = Return vs"
  using assms by (simp add: Laes_gcm_encrypt_args split: if_splits)

lemma Laes_gcm_decrypt_final:
  assumes "Call_EVP_DecryptFinal_ex \<in>
     set (snd (Laes_gcm_decrypt N [LString key, LString iv, LString ct] c klen))"
  shows "length key = klen \<and> length iv = 12 \<and> 16 < length ct \<and>
     Laes_gcm_decrypt N [LString key, LString iv, LString ct] c klen =
       aes_gcm_decrypt_native N c key iv ct"
  using assms by (simp add: Laes_gcm_decrypt_args split: if_splits)

lemma encrypt_output_shape_gen:
  assumes "gcm_contract N"
    and "int (length pt) + 16 \<le> INT_MAX"
    and "fst (Laes_gcm_encrypt N [LString key, LString iv, LString pt] c klen) = Return vs"
  shows "(let ct = snd (EVP_EncryptUpdate N (encrypt_setup_trace c key iv) pt (int (length pt)));
              tag = map (snd (EVP_CTRL_AEAD_GET_TAG N (encrypt_tag_trace c key iv pt))) [0..<16]
          in vs = [LString (ct @ tag)] \<and> length ct = length pt \<and> length tag = 16 \<and>
             length (ct @ tag) = length pt + 16 \<and>
             take (length pt) (ct @ tag) = ct \<and> drop (length pt) (ct @ tag) = tag)"
proof -
  have i: "int_of_size (length pt) = int (length pt)"
    using assms(2) by (intro int_of_size_small) simp
  note r = aes_gcm_encrypt_native_Return
    [OF Laes_gcm_encrypt_Return [OF assms(3), THEN conjunct2, THEN conjunct2]]
  have ok: "fst (EVP_EncryptUpdate N (encrypt_setup_trace c key iv) pt (int (length pt))) = 1"
    using r by (simp add: i)
  have len: "length (snd (EVP_EncryptUpdate N (encrypt_setup_trace c key iv) pt (int (length pt)))) =
      length pt"
    using assms(1) ok unfolding gcm_contract_def by blast
  show ?thesis
    using r len by (simp add: i Let_def del: upt_rec_numeral)
qed


lemma decrypt_outcome_gen:
  assumes "gcm_contract N"
    and "Call_EVP_DecryptFinal_ex \<in>
       set (snd (Laes_gcm_decrypt N [LString key, LString iv, LString ct] c klen))"
  shows "(fst (EVP_DecryptFinal_ex N (decrypt_final_trace c key iv ct)) \<le> 0 \<longrightarrow>
            fst (Laes_gcm_decrypt N [LString key, LString iv, LString ct] c klen) = VerifyFailure) \<and>
         (0 < fst (EVP_DecryptFinal_ex N (decrypt_final_trace c key iv ct)) \<and>
          int (length ct) - 16 \<le> INT_MAX \<longrightarrow>
            fst (Laes_gcm_decrypt N [LString key, LString iv, LString ct] c klen) =
              Return [LString (snd (EVP_DecryptUpdate N (decrypt_setup_trace c key iv)
                                 (take (length ct - 16) ct) (int (length ct - 16))))] \<and>
            length (snd (EVP_DecryptUpdate N (decrypt_setup_trace c key iv)
                      (take (length ct - 16) ct) (int (length ct - 16)))) = length ct - 16)"
proof -
  note a = Laes_gcm_decrypt_final [OF assms(2)]
  then have eq: "Laes_gcm_decrypt N [LString key, LString iv, LString ct] c klen =
       aes_gcm_decrypt_native N c key iv ct" and big: "16 < length ct"
    by simp_all
  note r = aes_gcm_decrypt_native_final [OF assms(2) [unfolded eq]]
  define inl where "inl = int_of_size (length ct - 16)"
  define p where "p = snd (EVP_DecryptUpdate N (decrypt_setup_trace c key iv) (take (nat inl) ct) inl)"
  have fin: "snd (EVP_DecryptFinal_ex N (decrypt_final_trace c key iv ct)) = []"
    using assms(1) unfolding gcm_contract_def by blast
  have up: "length p = length (take (nat inl) ct)"
    using assms(1) r unfolding gcm_contract_def inl_def p_def by blast
  have fits: "length p \<le> length ct"
    using r by (simp add: p_def inl_def)
  have res: "fst (aes_gcm_decrypt_native N c key iv ct) =
      (if fst (EVP_DecryptFinal_ex N (decrypt_final_trace c key iv ct)) \<le> 0
       then VerifyFailure else Return [LString p])"
    using r fits by (simp add: fin p_def inl_def)
  have small: "int (length ct) - 16 \<le> INT_MAX \<Longrightarrow> inl = int (length ct - 16)"
    unfolding inl_def using big by (intro int_of_size_small) simp
  show ?thesis
    using res up small by (auto simp: eq p_def)
qed

lemma gcm_contract_sample: "gcm_contract sample_native"
  by (simp add: gcm_contract_def sample_native_def)

lemma map_const_upt16: "map (\<lambda>i. c) [0..<16] = replicate 16 c"
  by (simp add: map_replicate_const)


text \<open>
  Within the range of \<open>int\<close> the property of the output holds.  Whenever one of the
  two encrypt entry points returns (the key then has the length of the variant and the
  nonce 12 bytes), and the plaintext has at most \<open>INT_MAX - 16\<close> bytes, so that its
  length and the length of the output fit the \<open>int\<close> in which the code and the native
  interface count: the call returns one string, the bytes \<open>EVP_EncryptUpdate\<close> wrote
  for the whole plaintext followed by the 16 bytes of the tag read with
  \<open>EVP_CTRL_AEAD_GET_TAG\<close>.  The ciphertext part is as long as the plaintext, the
  output has 16 bytes more, its last 16 bytes are the tag, and it holds nothing else:
  the nonce is not in it.
\<close>

lemma encrypt_output_shape:
  assumes "gcm_contract N"
    and "(f, c) \<in> {(Laes_128_gcm_encrypt, EVP_aes_128_gcm), (Laes_256_gcm_encrypt, EVP_aes_256_gcm)}"
    and "int (length pt) + 16 \<le> INT_MAX"
    and "fst (f N [LString key, LString iv, LString pt]) = Return vs"
  shows "(let ct = snd (EVP_EncryptUpdate N (encrypt_setup_trace c key iv) pt (int (length pt)));
              tag = map (snd (EVP_CTRL_AEAD_GET_TAG N (encrypt_tag_trace c key iv pt))) [0..<16]
          in vs = [LString (ct @ tag)] \<and> length ct = length pt \<and> length tag = 16 \<and>
             length (ct @ tag) = length pt + 16 \<and>
             take (length pt) (ct @ tag) = ct \<and> drop (length pt) (ct @ tag) = tag)"
proof -
  consider "f = (\<lambda>N args. Laes_gcm_encrypt N args c 16)" | "f = (\<lambda>N args. Laes_gcm_encrypt N args c 32)"
    using assms(2) by (auto simp: Laes_128_gcm_encrypt_def Laes_256_gcm_encrypt_def fun_eq_iff)
  then show ?thesis
  proof cases
    case 1
    then show ?thesis
      using encrypt_output_shape_gen [OF assms(1,3), of key iv c 16 vs] assms(4) by simp
  next
    case 2
    then show ?thesis
      using encrypt_output_shape_gen [OF assms(1,3), of key iv c 32 vs] assms(4) by simp
  qed
qed

lemma sample_tag_literal: "sample_tag = ''TTTTTTTTTTTTTTTT''"
  by (simp add: sample_tag_def eval_nat_numeral)

lemma sample_encrypt:
  assumes "length key = klen" "length iv = 12" "int (length pt) + 16 \<le> INT_MAX"
  shows "fst (Laes_gcm_encrypt sample_native [LString key, LString iv, LString pt] c klen) =
         Return [LString (pt @ sample_tag)]"
proof -
  have "int_of_size (length pt) = int (length pt)"
    using assms(3) by (intro int_of_size_small) simp
  then show ?thesis
    using assms
    by (simp add: Laes_gcm_encrypt_args aes_gcm_encrypt_native_def sample_native_def Let_def
        sample_tag_def map_replicate_const del: upt_rec_numeral)
qed

lemma encrypt_output_shape_example:
  "gcm_contract sample_native \<and>
   int (length ''hello'') + 16 \<le> INT_MAX \<and>
   fst (Laes_128_gcm_encrypt sample_native
          [LString ''0123456789abcdef'', LString ''0123456789ab'', LString ''hello'']) =
     Return [LString ''helloTTTTTTTTTTTTTTTT''] \<and>
   length ''helloTTTTTTTTTTTTTTTT'' = length ''hello'' + 16 \<and>
   drop (length ''hello'') ''helloTTTTTTTTTTTTTTTT'' =
     map (snd (EVP_CTRL_AEAD_GET_TAG sample_native
            (encrypt_tag_trace EVP_aes_128_gcm ''0123456789abcdef'' ''0123456789ab'' ''hello'')))
       [0..<16]"
proof -
  have b: "int (length ''hello'') + 16 \<le> INT_MAX"
    by (simp add: INT_MAX_def)
  have e: "fst (Laes_128_gcm_encrypt sample_native
          [LString ''0123456789abcdef'', LString ''0123456789ab'', LString ''hello'']) =
     Return [LString ''helloTTTTTTTTTTTTTTTT'']"
    unfolding Laes_128_gcm_encrypt_def
    by (subst sample_encrypt) (simp_all add: INT_MAX_def sample_tag_literal)
  have u: "snd (EVP_EncryptUpdate sample_native t ''hello'' (int (length ''hello''))) = ''hello''" for t
    by (simp add: sample_native_def)
  have g: "snd (EVP_CTRL_AEAD_GET_TAG sample_native t) = (\<lambda>i. CHR ''T'')" for t
    by (simp add: sample_native_def)
  show ?thesis
    using encrypt_output_shape [of sample_native Laes_128_gcm_encrypt EVP_aes_128_gcm
        "''hello''" "''0123456789abcdef''" "''0123456789ab''"
        "[LString ''helloTTTTTTTTTTTTTTTT'']"] b e
    by (simp add: gcm_contract_sample u g Let_def)
qed

text \<open>
  C5.  The claim is made of every plaintext; the code does not keep it for a long one.
  The buffer is sized from \<open>plaintext_len\<close>, a \<open>size_t\<close>, but the same length is
  handed to \<open>EVP_EncryptUpdate\<close> as an \<open>int\<close> with no check of its range (line 342),
  and the length of the output is computed in \<open>int\<close> (line 362).  The length of a
  plaintext of 4294967296 bytes is 0 as an \<open>int\<close>: the native update is given no
  byte, and with a valid key and nonce the call succeeds with an output of 16 bytes,
  the tag alone, not of \<open>len(plaintext) + 16\<close>.  (The sample library keeps the
  lengths of GCM: \<open>gcm_contract_sample\<close>.)
\<close>

theorem encrypt_truncates_long_plaintext:
  "length ''0123456789abcdef'' = 16 \<and> length ''0123456789ab'' = 12 \<and>
   fst (Laes_128_gcm_encrypt sample_native
          [LString ''0123456789abcdef'', LString ''0123456789ab'',
           LString (replicate 4294967296 (CHR 0x00))]) =
     Return [LString ''TTTTTTTTTTTTTTTT''] \<and>
   length ''TTTTTTTTTTTTTTTT'' \<noteq> length (replicate 4294967296 (CHR 0x00)) + 16"
proof -
  have "fst (Laes_128_gcm_encrypt sample_native
          [LString ''0123456789abcdef'', LString ''0123456789ab'',
           LString (replicate 4294967296 (CHR 0x00))]) =
     Return [LString sample_tag]"
    by (simp add: Laes_128_gcm_encrypt_def Laes_gcm_encrypt_args aes_gcm_encrypt_native_def
        sample_native_def Let_def int_of_size_def INT_MAX_def map_replicate_const sample_tag_def
        del: upt_rec_numeral)
  then show ?thesis
    by (simp add: gcm_contract_sample sample_tag_literal)
qed


text \<open>
  Within the range of \<open>int\<close> the property of decryption holds.  Whenever one of the
  two decrypt entry points reaches the final step (the key and nonce are then valid,
  the input is longer than 16 bytes and the native calls before have succeeded): if
  \<open>EVP_DecryptFinal_ex\<close> returns 0 or less, the call returns \<open>VerifyFailure\<close>, the pair
  \<open>nil\<close>, \<^verbatim>\<open>verify-failed\<close>, and so no byte of the plaintext; if it returns more than
  0 and the input without the tag has at most \<open>INT_MAX\<close> bytes, the call returns one
  string, what \<open>EVP_DecryptUpdate\<close> wrote for the input without its last 16 bytes, of
  exactly \<open>length - 16\<close> bytes.
\<close>

lemma decrypt_verify_failure_or_plaintext:
  assumes "gcm_contract N"
    and "(f, c) \<in> {(Laes_128_gcm_decrypt, EVP_aes_128_gcm), (Laes_256_gcm_decrypt, EVP_aes_256_gcm)}"
    and "Call_EVP_DecryptFinal_ex \<in> set (snd (f N [LString key, LString iv, LString ct]))"
  shows "16 < length ct \<and>
         (fst (EVP_DecryptFinal_ex N (decrypt_final_trace c key iv ct)) \<le> 0 \<longrightarrow>
            fst (f N [LString key, LString iv, LString ct]) = VerifyFailure) \<and>
         (0 < fst (EVP_DecryptFinal_ex N (decrypt_final_trace c key iv ct)) \<and>
          int (length ct) - 16 \<le> INT_MAX \<longrightarrow>
            fst (f N [LString key, LString iv, LString ct]) =
              Return [LString (snd (EVP_DecryptUpdate N (decrypt_setup_trace c key iv)
                                 (take (length ct - 16) ct) (int (length ct - 16))))] \<and>
            length (snd (EVP_DecryptUpdate N (decrypt_setup_trace c key iv)
                      (take (length ct - 16) ct) (int (length ct - 16)))) = length ct - 16)"
proof -
  consider "f = (\<lambda>N args. Laes_gcm_decrypt N args c 16)" | "f = (\<lambda>N args. Laes_gcm_decrypt N args c 32)"
    using assms(2) by (auto simp: Laes_128_gcm_decrypt_def Laes_256_gcm_decrypt_def fun_eq_iff)
  then show ?thesis
  proof cases
    case 1
    then show ?thesis
      using decrypt_outcome_gen [OF assms(1), of key iv ct c 16]
        Laes_gcm_decrypt_final [of N key iv ct c 16] assms(3) by simp
  next
    case 2
    then show ?thesis
      using decrypt_outcome_gen [OF assms(1), of key iv ct c 32]
        Laes_gcm_decrypt_final [of N key iv ct c 32] assms(3) by simp
  qed
qed

lemma sample_decrypt:
  assumes "length key = klen" "length iv = 12" "16 < length ct"
  shows "Laes_gcm_decrypt sample_native [LString key, LString iv, LString ct] c klen =
     (let inl = int_of_size (length ct - 16);
          inp = take (nat inl) ct;
          tg = drop (length ct - 16) ct;
          t4 = decrypt_setup_trace c key iv @ [Call_EVP_DecryptUpdate inp inl]
      in if inl < 0 then (Raise (RuntimeError ''Error while decrypting data''), t4)
         else (if tg = sample_tag then Return [LString inp] else VerifyFailure,
               t4 @ [Call_EVP_CTRL_AEAD_SET_TAG 16 tg, Call_EVP_DecryptFinal_ex]))"
  using assms
  by (simp add: Laes_gcm_decrypt_args aes_gcm_decrypt_native_def sample_native_def Let_def
      decrypt_setup_trace_def VerifyFailure_def)

lemma decrypt_verify_failure_or_plaintext_example:
  "gcm_contract sample_native \<and>
   Laes_128_gcm_decrypt sample_native
     [LString ''0123456789abcdef'', LString ''0123456789ab'', LString ''helloTTTTTTTTTTTTTTTT''] =
     (Return [LString ''hello''],
      decrypt_final_trace EVP_aes_128_gcm ''0123456789abcdef'' ''0123456789ab''
        ''helloTTTTTTTTTTTTTTTT'' @ [Call_EVP_DecryptFinal_ex]) \<and>
   length ''hello'' = length ''helloTTTTTTTTTTTTTTTT'' - 16 \<and>
   Laes_128_gcm_decrypt sample_native
     [LString ''0123456789abcdef'', LString ''0123456789ab'', LString ''helloTTTTTTTTTTTTTTTX''] =
     (VerifyFailure,
      decrypt_final_trace EVP_aes_128_gcm ''0123456789abcdef'' ''0123456789ab''
        ''helloTTTTTTTTTTTTTTTX'' @ [Call_EVP_DecryptFinal_ex])"
proof -
  have g: "Laes_128_gcm_decrypt sample_native
     [LString ''0123456789abcdef'', LString ''0123456789ab'', LString ''helloTTTTTTTTTTTTTTTT''] =
     (Return [LString ''hello''],
      decrypt_final_trace EVP_aes_128_gcm ''0123456789abcdef'' ''0123456789ab''
        ''helloTTTTTTTTTTTTTTTT'' @ [Call_EVP_DecryptFinal_ex])"
    unfolding Laes_128_gcm_decrypt_def
    by (subst sample_decrypt)
      (simp_all add: int_of_size_small INT_MAX_def Let_def decrypt_final_trace_def sample_tag_literal)
  have b: "Laes_128_gcm_decrypt sample_native
     [LString ''0123456789abcdef'', LString ''0123456789ab'', LString ''helloTTTTTTTTTTTTTTTX''] =
     (VerifyFailure,
      decrypt_final_trace EVP_aes_128_gcm ''0123456789abcdef'' ''0123456789ab''
        ''helloTTTTTTTTTTTTTTTX'' @ [Call_EVP_DecryptFinal_ex])"
    unfolding Laes_128_gcm_decrypt_def
    by (subst sample_decrypt)
      (simp_all add: int_of_size_small INT_MAX_def Let_def decrypt_final_trace_def sample_tag_literal)
  show ?thesis
    using decrypt_verify_failure_or_plaintext [of sample_native Laes_128_gcm_decrypt
        EVP_aes_128_gcm "''0123456789abcdef''" "''0123456789ab''" "''helloTTTTTTTTTTTTTTTT''"]
      decrypt_verify_failure_or_plaintext [of sample_native Laes_128_gcm_decrypt
        EVP_aes_128_gcm "''0123456789abcdef''" "''0123456789ab''" "''helloTTTTTTTTTTTTTTTX''"]
      g b
    by (simp add: gcm_contract_sample)
qed

text \<open>
  C4.  The claim is made of every input longer than 16 bytes; the code does not keep
  its second half for a long one.  The buffer is sized from \<open>ciphertext_len\<close>, a
  \<open>size_t\<close>, but \<open>ciphertext_len - 16\<close> is handed to \<open>EVP_DecryptUpdate\<close> as an
  \<open>int\<close> with no check of its range (line 417).  Of an input of 4294967296 + 16
  bytes that ends in the tag of the empty message the native update is given no byte,
  the final step succeeds, and the call returns the empty string, not
  \<open>len - 16\<close> bytes of plaintext.  (The sample library keeps the lengths of GCM:
  \<open>gcm_contract_sample\<close>.)
\<close>

theorem decrypt_truncates_long_input:
  "16 < length (replicate 4294967296 (CHR 0x00) @ ''TTTTTTTTTTTTTTTT'') \<and>
   fst (EVP_DecryptFinal_ex sample_native
          (decrypt_final_trace EVP_aes_128_gcm ''0123456789abcdef'' ''0123456789ab''
             (replicate 4294967296 (CHR 0x00) @ ''TTTTTTTTTTTTTTTT''))) = 1 \<and>
   Laes_128_gcm_decrypt sample_native
     [LString ''0123456789abcdef'', LString ''0123456789ab'',
      LString (replicate 4294967296 (CHR 0x00) @ ''TTTTTTTTTTTTTTTT'')] =
     (Return [LString []],
      decrypt_final_trace EVP_aes_128_gcm ''0123456789abcdef'' ''0123456789ab''
        (replicate 4294967296 (CHR 0x00) @ ''TTTTTTTTTTTTTTTT'') @ [Call_EVP_DecryptFinal_ex]) \<and>
   length ([] :: string) \<noteq> length (replicate 4294967296 (CHR 0x00) @ ''TTTTTTTTTTTTTTTT'') - 16"
proof -
  have i: "int_of_size 4294967296 = 0"
    by (simp add: int_of_size_def)
  have f: "fst (EVP_DecryptFinal_ex sample_native
          (decrypt_final_trace EVP_aes_128_gcm ''0123456789abcdef'' ''0123456789ab''
             (replicate 4294967296 (CHR 0x00) @ ''TTTTTTTTTTTTTTTT''))) = 1"
    by (simp add: sample_native_def decrypt_final_trace_def sample_tag_literal)
  have r: "Laes_128_gcm_decrypt sample_native
     [LString ''0123456789abcdef'', LString ''0123456789ab'',
      LString (replicate 4294967296 (CHR 0x00) @ ''TTTTTTTTTTTTTTTT'')] =
     (Return [LString []],
      decrypt_final_trace EVP_aes_128_gcm ''0123456789abcdef'' ''0123456789ab''
        (replicate 4294967296 (CHR 0x00) @ ''TTTTTTTTTTTTTTTT'') @ [Call_EVP_DecryptFinal_ex])"
    unfolding Laes_128_gcm_decrypt_def
    by (subst sample_decrypt) (simp_all add: i Let_def decrypt_final_trace_def sample_tag_literal)
  show ?thesis
    using f r by (simp add: gcm_contract_sample)
qed

lemma empty_plaintext_gen:
  assumes "fst (Laes_gcm_encrypt N [LString key, LString iv, LString []] c klen) = Return [LString out]"
  shows "length out = 16 \<and>
         Laes_gcm_decrypt N' [LString key, LString iv, LString out] c klen =
           (Raise (ArgError 3 ''ciphertext must be at least 16 bytes (including tag)''), [])"
proof -
  note a = Laes_gcm_encrypt_Return [OF assms]
  note r = aes_gcm_encrypt_native_Return [OF a [THEN conjunct2, THEN conjunct2]]
  have "length out = 16"
    using r by (simp del: upt_rec_numeral)
  then show ?thesis
    using a by (simp add: Laes_gcm_decrypt_args)
qed

text \<open>
  C1.  The round trip fails for the empty plaintext.  Whenever an encrypt entry point
  returns a string for the empty plaintext, that string has exactly 16 bytes (the
  tag), and the decrypt entry point of the same variant, called with the same key and
  nonce and that string, raises the argument error of its third argument before any
  native call: the test is \<open>ciphertext_len > 16\<close>, while its message asks for at
  least 16 bytes.  The plaintext is not returned.
\<close>

theorem roundtrip_empty_plaintext_rejected:
  assumes "(enc, dec) \<in> {(Laes_128_gcm_encrypt, Laes_128_gcm_decrypt),
                         (Laes_256_gcm_encrypt, Laes_256_gcm_decrypt)}"
    and "fst (enc N [LString key, LString iv, LString []]) = Return [LString out]"
  shows "length out = 16 \<and>
         dec N [LString key, LString iv, LString out] =
           (Raise (ArgError 3 ''ciphertext must be at least 16 bytes (including tag)''), []) \<and>
         fst (dec N [LString key, LString iv, LString out]) \<noteq> Return [LString []]"
proof -
  consider "enc = Laes_128_gcm_encrypt" "dec = Laes_128_gcm_decrypt"
    | "enc = Laes_256_gcm_encrypt" "dec = Laes_256_gcm_decrypt"
    using assms(1) by auto
  then show ?thesis
  proof cases
    case 1
    then show ?thesis
      using empty_plaintext_gen [of N key iv EVP_aes_128_gcm 16 out N] assms(2)
      by (simp add: Laes_128_gcm_encrypt_def Laes_128_gcm_decrypt_def)
  next
    case 2
    then show ?thesis
      using empty_plaintext_gen [of N key iv EVP_aes_256_gcm 32 out N] assms(2)
      by (simp add: Laes_256_gcm_encrypt_def Laes_256_gcm_decrypt_def)
  qed
qed

theorem roundtrip_empty_plaintext_rejected_witness:
  "fst (Laes_128_gcm_encrypt sample_native
          [LString ''0123456789abcdef'', LString ''0123456789ab'', LString []]) =
     Return [LString ''TTTTTTTTTTTTTTTT''] \<and>
   Laes_128_gcm_decrypt sample_native
     [LString ''0123456789abcdef'', LString ''0123456789ab'', LString ''TTTTTTTTTTTTTTTT''] =
     (Raise (ArgError 3 ''ciphertext must be at least 16 bytes (including tag)''), [])"
proof -
  have e: "fst (Laes_128_gcm_encrypt sample_native
          [LString ''0123456789abcdef'', LString ''0123456789ab'', LString []]) =
     Return [LString ''TTTTTTTTTTTTTTTT'']"
    unfolding Laes_128_gcm_encrypt_def
    by (subst sample_encrypt) (simp_all add: INT_MAX_def sample_tag_literal)
  show ?thesis
    using roundtrip_empty_plaintext_rejected [of Laes_128_gcm_encrypt Laes_128_gcm_decrypt
        sample_native "''0123456789abcdef''" "''0123456789ab''" "''TTTTTTTTTTTTTTTT''"] e
    by simp
qed

subsection \<open>The ECDSA signature codec: big-endian conversions\<close>


lemma length_BN_bn2bin: "length (BN_bn2bin n) = BN_num_bytes n"
proof (induction n rule: BN_bn2bin.induct)
  case (1 n)
  then show ?case
    by (subst BN_bn2bin.simps, subst BN_num_bytes.simps) simp
qed

lemma BN_bn2bin_0: "BN_bn2bin 0 = []"
  by (simp add: BN_bn2bin.simps)

lemma BN_bn2bin_eq_Nil: "BN_bn2bin n = [] \<longleftrightarrow> n = 0"
  by (subst BN_bn2bin.simps) simp

lemma BN_num_bytes_eq_0: "BN_num_bytes n = 0 \<longleftrightarrow> n = 0"
  by (subst BN_num_bytes.simps) simp

lemma big_endian_snoc: "big_endian (xs @ [c]) = big_endian xs * 256 + of_char c"
  by (simp add: big_endian_def)

lemma big_endian_Nil: "big_endian [] = 0"
  by (simp add: big_endian_def)

lemma big_endian_BN_bn2bin: "big_endian (BN_bn2bin n) = n"
proof (induction n rule: BN_bn2bin.induct)
  case (1 n)
  show ?case
  proof (cases "n = 0")
    case True
    then show ?thesis by (simp add: BN_bn2bin_0 big_endian_Nil)
  next
    case False
    then have "BN_bn2bin n = BN_bn2bin (n div 256) @ [char_of (n mod 256)]"
      by (subst BN_bn2bin.simps) simp
    then show ?thesis
      using 1 [OF False] by (simp add: big_endian_snoc)
  qed
qed

lemma of_char_zero: "(of_char (CHR 0x00) :: nat) = 0"
  by (simp add: of_char_def)

lemma of_char_eq_zero: "(of_char c :: nat) = 0 \<longleftrightarrow> c = CHR 0x00"
  using of_char_eq_iff [of c "CHR 0x00", where ?'a = nat] by (simp add: of_char_zero)

lemma char_of_eq_zero: "char_of (n::nat) = CHR 0x00 \<longleftrightarrow> n mod 256 = 0"
  by (simp add: char_of_eq_iff take_bit_eq_mod of_char_zero)

lemma hd_BN_bn2bin: "n \<noteq> 0 \<Longrightarrow> hd (BN_bn2bin n) \<noteq> CHR 0x00"
proof (induction n rule: BN_bn2bin.induct)
  case (1 n)
  have eq: "BN_bn2bin n = BN_bn2bin (n div 256) @ [char_of (n mod 256)]"
    using 1(2) by (subst BN_bn2bin.simps) simp
  show ?case
  proof (cases "n div 256 = 0")
    case True
    then have "n mod 256 = n" by (simp add: div_eq_0_iff)
    then show ?thesis
      using 1(2) True by (simp add: eq BN_bn2bin_0 char_of_eq_zero)
  next
    case False
    then have "BN_bn2bin (n div 256) \<noteq> []" by (simp add: BN_bn2bin_eq_Nil)
    then show ?thesis
      using 1(1) [OF 1(2) False] by (simp add: eq)
  qed
qed

lemma no_leading_zero_BN_bn2bin: "no_leading_zero (BN_bn2bin n)"
proof (cases "n = 0")
  case True
  then show ?thesis by (simp add: BN_bn2bin_0 no_leading_zero_def)
next
  case False
  then have "BN_bn2bin n \<noteq> []" by (simp add: BN_bn2bin_eq_Nil)
  then show ?thesis
    using hd_BN_bn2bin [OF False] by (cases "BN_bn2bin n") (simp_all add: no_leading_zero_def)
qed

lemma of_char_lt_256: "(of_char c :: nat) < 256"
proof -
  have "(of_char c :: nat) mod 256 = of_char c" by (rule of_char_mod_256)
  then show ?thesis by (metis mod_less_divisor zero_less_numeral)
qed

lemma big_endian_pos:
  assumes "bs \<noteq> []" "no_leading_zero bs"
  shows "0 < big_endian bs"
  using assms
proof (induction bs rule: rev_induct)
  case Nil
  then show ?case by simp
next
  case (snoc c xs)
  show ?case
  proof (cases xs)
    case Nil
    then have "c \<noteq> CHR 0x00" using snoc(3) by (simp add: no_leading_zero_def)
    then have "(of_char c :: nat) \<noteq> 0"
      by (simp add: of_char_eq_zero)
    then show ?thesis using Nil by (simp add: big_endian_def)
  next
    case (Cons a as)
    then have "no_leading_zero xs" using snoc(3) by (simp add: no_leading_zero_def)
    then have "0 < big_endian xs" using snoc(1) Cons by simp
    then show ?thesis by (simp add: big_endian_snoc)
  qed
qed

lemma BN_bn2bin_big_endian:
  assumes "no_leading_zero bs"
  shows "BN_bn2bin (big_endian bs) = bs"
  using assms
proof (induction bs rule: rev_induct)
  case Nil
  then show ?case by (simp add: big_endian_Nil BN_bn2bin_0)
next
  case (snoc c xs)
  have nz: "big_endian (xs @ [c]) \<noteq> 0"
    using big_endian_pos [OF _ snoc(2)] by simp
  have lz: "no_leading_zero xs"
    using snoc(2) by (cases xs) (simp_all add: no_leading_zero_def)
  have d: "big_endian (xs @ [c]) div 256 = big_endian xs"
    using of_char_lt_256 [of c] by (simp add: big_endian_snoc)
  have m: "big_endian (xs @ [c]) mod 256 = of_char c"
    using of_char_lt_256 [of c] by (simp add: big_endian_snoc)
  have "BN_bn2bin (big_endian (xs @ [c])) =
        BN_bn2bin (big_endian (xs @ [c]) div 256) @ [char_of (big_endian (xs @ [c]) mod 256)]"
    using nz by (subst BN_bn2bin.simps) simp
  then show ?case
    using snoc(1) [OF lz] by (simp add: d m)
qed

subsection \<open>The ECDSA signature codec: parsing and building\<close>





lemma parse_result:
  assumes "d2i_ECDSA_SIG N der = Some (r, s)"
  shows "Lparse_ecdsa_signature B N (LString der # rest) =
     (if B < BN_num_bytes r \<or> B < BN_num_bytes s then Undefined
      else Return [LString (BN_bn2bin r), LString (BN_bn2bin s)])"
  using assms
  by (simp add: Lparse_ecdsa_signature_def checklstring_Cons1 length_BN_bn2bin Let_def)

lemma parse_malformed:
  assumes "d2i_ECDSA_SIG N der = None"
  shows "Lparse_ecdsa_signature B N (LString der # rest) = Return [LNil]"
  using assms by (simp add: Lparse_ecdsa_signature_def checklstring_Cons1)

lemma BN_bin2bn_whole:
  assumes "int (length bs) \<le> INT_MAX"
  shows "BN_bin2bn bs (int_of_size (length bs)) = Some (big_endian bs)"
  using assms by (simp add: BN_bin2bn_def int_of_size_small)

lemma build_result:
  assumes "int (length rb) \<le> INT_MAX" "int (length sb) \<le> INT_MAX"
  shows "Lbuild_ecdsa_signature B N (LString rb # LString sb # rest) =
     (case i2d_ECDSA_SIG N (big_endian rb) (big_endian sb) of
        None \<Rightarrow> Undefined
      | Some der \<Rightarrow> if B < length der then Undefined else Return [LString der])"
  using assms
  by (simp add: Lbuild_ecdsa_signature_def checklstring_Cons BN_bin2bn_whole)

lemma foldl_big_endian:
  "foldl (\<lambda>a c. a * 256 + of_char c) a bs = a * 256 ^ length bs + big_endian bs"
proof (induction bs rule: rev_induct)
  case Nil
  then show ?case by (simp add: big_endian_def)
next
  case (snoc c xs)
  then show ?case by (simp add: big_endian_snoc algebra_simps)
qed

lemma big_endian_Cons: "big_endian (c # bs) = of_char c * 256 ^ length bs + big_endian bs"
  using foldl_big_endian [of "of_char c" bs] by (simp add: big_endian_def)

lemma big_endian_zero_Cons: "big_endian (CHR 0x00 # bs) = big_endian bs"
  by (simp add: big_endian_Cons of_char_zero)

lemma big_endian_dropWhile: "big_endian (dropWhile (\<lambda>c. c = CHR 0x00) bs) = big_endian bs"
  by (induction bs) (simp_all add: big_endian_zero_Cons)

lemma no_leading_zero_dropWhile: "no_leading_zero (dropWhile (\<lambda>c. c = CHR 0x00) bs)"
  by (induction bs) (simp_all add: no_leading_zero_def)

lemma BN_bn2bin_shortest:
  assumes "big_endian bs = n"
  shows "length (BN_bn2bin n) \<le> length bs"
proof -
  have "BN_bn2bin n = dropWhile (\<lambda>c. c = CHR 0x00) bs"
    using BN_bn2bin_big_endian [OF no_leading_zero_dropWhile [of bs]] assms
    by (simp add: big_endian_dropWhile)
  then show ?thesis by (simp add: length_dropWhile_le)
qed


text \<open>
  Within the buffer the property of the round trip holds.  \<open>LUAL_BUFFERSIZE\<close> is an
  \<open>int\<close>.  For every DER input that the native decoder accepts, as the integers \<open>r\<close>
  and \<open>s\<close>, each of at most \<open>LUAL_BUFFERSIZE\<close> bytes: \<open>parse_ecdsa_signature\<close> returns
  two strings, the big-endian bytes of \<open>r\<close> and of \<open>s\<close>, without a leading zero byte
  and no longer than any other big-endian string of the same integer (so leading zero
  bytes of the DER integers are gone).  When the native encoder encodes \<open>(r, s)\<close> in at
  most \<open>LUAL_BUFFERSIZE\<close> bytes and the native decoder reads that encoding back as
  \<open>(r, s)\<close>, \<open>build_ecdsa_signature\<close> of the two strings returns that encoding, and
  parsing it returns the same two strings again.
\<close>

lemma ecdsa_parse_minimal_and_round_trip:
  assumes "int B \<le> INT_MAX"
    and "d2i_ECDSA_SIG N der = Some (r, s)"
    and "BN_num_bytes r \<le> B" and "BN_num_bytes s \<le> B"
  shows "\<exists>rb sb.
     Lparse_ecdsa_signature B N [LString der] = Return [LString rb, LString sb] \<and>
     big_endian rb = r \<and> big_endian sb = s \<and>
     no_leading_zero rb \<and> no_leading_zero sb \<and>
     (\<forall>bs. big_endian bs = r \<longrightarrow> length rb \<le> length bs) \<and>
     (\<forall>bs. big_endian bs = s \<longrightarrow> length sb \<le> length bs) \<and>
     (\<forall>der'. i2d_ECDSA_SIG N r s = Some der' \<and> length der' \<le> B \<and>
             d2i_ECDSA_SIG N der' = Some (r, s) \<longrightarrow>
        Lbuild_ecdsa_signature B N [LString rb, LString sb] = Return [LString der'] \<and>
        Lparse_ecdsa_signature B N [LString der'] = Return [LString rb, LString sb])"
proof -
  let ?rb = "BN_bn2bin r" and ?sb = "BN_bn2bin s"
  have p: "Lparse_ecdsa_signature B N [LString der] = Return [LString ?rb, LString ?sb]"
    using parse_result [OF assms(2), of B "[]"] assms(3,4) by simp
  have lr: "int (length ?rb) \<le> INT_MAX" and ls: "int (length ?sb) \<le> INT_MAX"
    using assms(1,3,4) by (simp_all add: length_BN_bn2bin)
  have b: "Lbuild_ecdsa_signature B N [LString ?rb, LString ?sb] = Return [LString der']"
    if "i2d_ECDSA_SIG N r s = Some der'" "length der' \<le> B" for der'
    using build_result [OF lr ls, of B N "[]"] that by (simp add: big_endian_BN_bn2bin)
  have q: "Lparse_ecdsa_signature B N [LString der'] = Return [LString ?rb, LString ?sb]"
    if "d2i_ECDSA_SIG N der' = Some (r, s)" for der'
    using parse_result [OF that, of B "[]"] assms(3,4) by simp
  show ?thesis
  proof (rule exI [of _ ?rb], rule exI [of _ ?sb])
    show "Lparse_ecdsa_signature B N [LString der] = Return [LString ?rb, LString ?sb] \<and>
      big_endian ?rb = r \<and> big_endian ?sb = s \<and>
      no_leading_zero ?rb \<and> no_leading_zero ?sb \<and>
      (\<forall>bs. big_endian bs = r \<longrightarrow> length ?rb \<le> length bs) \<and>
      (\<forall>bs. big_endian bs = s \<longrightarrow> length ?sb \<le> length bs) \<and>
      (\<forall>der'. i2d_ECDSA_SIG N r s = Some der' \<and> length der' \<le> B \<and>
               d2i_ECDSA_SIG N der' = Some (r, s) \<longrightarrow>
         Lbuild_ecdsa_signature B N [LString ?rb, LString ?sb] = Return [LString der'] \<and>
         Lparse_ecdsa_signature B N [LString der'] = Return [LString ?rb, LString ?sb])"
      using p b q
      by (simp add: big_endian_BN_bn2bin no_leading_zero_BN_bn2bin BN_bn2bin_shortest)
  qed
qed

lemma sample_der_small:
  "d2i_ECDSA_SIG sample_native
     [CHR 0x30, CHR 0x07, CHR 0x02, CHR 0x02, CHR 0x00, CHR 0x80, CHR 0x02, CHR 0x01, CHR 0x05] =
     Some (128, 5)"
  "i2d_ECDSA_SIG sample_native 128 5 =
     Some [CHR 0x30, CHR 0x07, CHR 0x02, CHR 0x02, CHR 0x00, CHR 0x80, CHR 0x02, CHR 0x01, CHR 0x05]"
proof -
  have "sample_d2i
     [CHR 0x30, CHR 0x07, CHR 0x02, CHR 0x02, CHR 0x00, CHR 0x80, CHR 0x02, CHR 0x01, CHR 0x05] =
     Some (128, 5)"
    by code_simp
  then show "d2i_ECDSA_SIG sample_native
     [CHR 0x30, CHR 0x07, CHR 0x02, CHR 0x02, CHR 0x00, CHR 0x80, CHR 0x02, CHR 0x01, CHR 0x05] =
     Some (128, 5)"
    by (simp add: sample_native_def)
  have "sample_i2d 128 5 =
     Some [CHR 0x30, CHR 0x07, CHR 0x02, CHR 0x02, CHR 0x00, CHR 0x80, CHR 0x02, CHR 0x01, CHR 0x05]"
    by code_simp
  then show "i2d_ECDSA_SIG sample_native 128 5 =
     Some [CHR 0x30, CHR 0x07, CHR 0x02, CHR 0x02, CHR 0x00, CHR 0x80, CHR 0x02, CHR 0x01, CHR 0x05]"
    by (simp add: sample_native_def)
qed

lemma BN_small_values:
  "BN_bn2bin 128 = [CHR 0x80]" "BN_bn2bin 1 = [CHR 0x01]" "BN_bn2bin 5 = [CHR 0x05]"
  "BN_num_bytes 128 = 1" "BN_num_bytes 1 = 1" "BN_num_bytes 5 = 1" "BN_num_bytes 0 = 0"
  by code_simp+

lemma ecdsa_parse_minimal_and_round_trip_example:
  "Lparse_ecdsa_signature 8192 sample_native
     [LString [CHR 0x30, CHR 0x07, CHR 0x02, CHR 0x02, CHR 0x00, CHR 0x80, CHR 0x02, CHR 0x01, CHR 0x05]] =
     Return [LString [CHR 0x80], LString [CHR 0x05]] \<and>
   Lbuild_ecdsa_signature 8192 sample_native [LString [CHR 0x80], LString [CHR 0x05]] =
     Return [LString
       [CHR 0x30, CHR 0x07, CHR 0x02, CHR 0x02, CHR 0x00, CHR 0x80, CHR 0x02, CHR 0x01, CHR 0x05]] \<and>
   no_leading_zero [CHR 0x80] \<and> big_endian [CHR 0x80] = 128"
proof -
  let ?der = "[CHR 0x30, CHR 0x07, CHR 0x02, CHR 0x02, CHR 0x00, CHR 0x80, CHR 0x02, CHR 0x01, CHR 0x05]"
  have b: "int 8192 \<le> INT_MAX" by (simp add: INT_MAX_def)
  have n: "BN_num_bytes 128 \<le> 8192" "BN_num_bytes 5 \<le> 8192"
    by (simp_all add: BN_small_values)
  have direct: "Lparse_ecdsa_signature 8192 sample_native [LString ?der] =
      Return [LString [CHR 0x80], LString [CHR 0x05]]"
    using parse_result [OF sample_der_small(1), of 8192 "[]"] by (simp add: BN_small_values)
  obtain rb sb where
    p: "Lparse_ecdsa_signature 8192 sample_native [LString ?der] = Return [LString rb, LString sb]"
    and v: "big_endian rb = 128" "no_leading_zero rb"
    and rt: "\<forall>der'. i2d_ECDSA_SIG sample_native 128 5 = Some der' \<and> length der' \<le> 8192 \<and>
             d2i_ECDSA_SIG sample_native der' = Some (128, 5) \<longrightarrow>
        Lbuild_ecdsa_signature 8192 sample_native [LString rb, LString sb] = Return [LString der'] \<and>
        Lparse_ecdsa_signature 8192 sample_native [LString der'] = Return [LString rb, LString sb]"
    using ecdsa_parse_minimal_and_round_trip [OF b sample_der_small(1) n] by blast
  have eq: "rb = [CHR 0x80]" "sb = [CHR 0x05]"
    using p direct by simp_all
  have "Lbuild_ecdsa_signature 8192 sample_native [LString rb, LString sb] = Return [LString ?der]"
    using rt sample_der_small by simp
  then show ?thesis
    using direct v eq by simp
qed


lemma of_char_values:
  "(of_char (CHR 0x82) :: nat) = 130" "(of_char (CHR 0x01) :: nat) = 1"
  "(of_char (CHR 0x00) :: nat) = 0"
  by (simp_all add: of_char_def)

lemma big_endian_values:
  "big_endian [CHR 0x20, CHR 0x08] = 8200" "big_endian [CHR 0x20, CHR 0x01] = 8193"
  "big_endian [CHR 0x00] = 0" "big_endian [CHR 0x05] = 5"
  by code_simp+

lemma BN_num_bytes_big:
  "BN_num_bytes (big_endian (CHR 0x01 # replicate 8192 (CHR 0x00))) = 8193"
proof -
  have "no_leading_zero (CHR 0x01 # replicate 8192 (CHR 0x00))"
    by (simp add: no_leading_zero_def)
  then have "BN_bn2bin (big_endian (CHR 0x01 # replicate 8192 (CHR 0x00))) =
      CHR 0x01 # replicate 8192 (CHR 0x00)"
    by (rule BN_bn2bin_big_endian)
  then have "length (BN_bn2bin (big_endian (CHR 0x01 # replicate 8192 (CHR 0x00)))) = 8193"
    by simp
  then show ?thesis by (simp add: length_BN_bn2bin)
qed

lemma der_read_length_long2:
  "der_read_length (CHR 0x82 # a # b # rest) = Some (big_endian [a, b], rest)"
  by (simp add: der_read_length_def of_char_values Let_def)

lemma der_read_length_short1:
  "der_read_length (CHR 0x01 # rest) = Some (1, rest)"
  by (simp add: der_read_length_def of_char_values Let_def)

lemma sample_d2i_big_r:
  "sample_d2i (CHR 0x30 # CHR 0x82 # CHR 0x20 # CHR 0x08 #
               CHR 0x02 # CHR 0x82 # CHR 0x20 # CHR 0x01 #
               CHR 0x01 # replicate 8192 (CHR 0x00) @ [CHR 0x02, CHR 0x01, CHR 0x05]) =
     Some (big_endian (CHR 0x01 # replicate 8192 (CHR 0x00)), 5)"
  by (simp add: sample_d2i_def der_read_length_long2 der_read_length_short1 der_read_integer_def
      big_endian_values of_char_values)

lemma sample_d2i_big_s:
  "sample_d2i (CHR 0x30 # CHR 0x82 # CHR 0x20 # CHR 0x08 #
               CHR 0x02 # CHR 0x01 # CHR 0x00 #
               CHR 0x02 # CHR 0x82 # CHR 0x20 # CHR 0x01 #
               CHR 0x01 # replicate 8192 (CHR 0x00)) =
     Some (0, big_endian (CHR 0x01 # replicate 8192 (CHR 0x00)))"
  by (simp add: sample_d2i_def der_read_length_long2 der_read_length_short1 der_read_integer_def
      big_endian_values of_char_values)


text \<open>
  C8.  The claim is made of every well-formed DER signature; the code does not keep it
  for a long integer.  \<open>BN_bn2bin\<close> writes \<open>BN_num_bytes(r)\<close> bytes into the
  \<open>LUAL_BUFFERSIZE\<close> bytes that \<open>luaL_prepbuffer\<close> gave, and nothing compares the two
  (lines 478--486).  With \<open>LUAL_BUFFERSIZE = 8192\<close> and the DER encoding of an \<open>r\<close> of
  8193 bytes, which the decoder accepts, 8193 bytes are written into the buffer of
  8192: \<open>parse_ecdsa_signature\<close> returns no pair of strings, its behaviour is
  undefined.
\<close>

theorem ecdsa_parse_overruns_buffer:
  "d2i_ECDSA_SIG sample_native
     (CHR 0x30 # CHR 0x82 # CHR 0x20 # CHR 0x08 #
      CHR 0x02 # CHR 0x82 # CHR 0x20 # CHR 0x01 #
      CHR 0x01 # replicate 8192 (CHR 0x00) @ [CHR 0x02, CHR 0x01, CHR 0x05]) =
     Some (big_endian (CHR 0x01 # replicate 8192 (CHR 0x00)), 5) \<and>
   Lparse_ecdsa_signature 8192 sample_native
     [LString (CHR 0x30 # CHR 0x82 # CHR 0x20 # CHR 0x08 #
               CHR 0x02 # CHR 0x82 # CHR 0x20 # CHR 0x01 #
               CHR 0x01 # replicate 8192 (CHR 0x00) @ [CHR 0x02, CHR 0x01, CHR 0x05])] =
     Undefined"
proof -
  have d: "d2i_ECDSA_SIG sample_native
     (CHR 0x30 # CHR 0x82 # CHR 0x20 # CHR 0x08 #
      CHR 0x02 # CHR 0x82 # CHR 0x20 # CHR 0x01 #
      CHR 0x01 # replicate 8192 (CHR 0x00) @ [CHR 0x02, CHR 0x01, CHR 0x05]) =
     Some (big_endian (CHR 0x01 # replicate 8192 (CHR 0x00)), 5)"
    using sample_d2i_big_r by (simp add: sample_native_def)
  show ?thesis
    using parse_result [OF d, of 8192 "[]"] d by (simp add: BN_num_bytes_big)
qed

text \<open>
  Within the buffer the property of the zero component holds.  For every DER input
  that the native decoder accepts, as integers of at most \<open>LUAL_BUFFERSIZE\<close> bytes
  each: \<open>parse_ecdsa_signature\<close> returns the empty string for a component exactly
  when that integer is zero.  \<open>build_ecdsa_signature\<close> reads an empty string for \<open>r\<close>
  or \<open>s\<close> as the integer zero: it hands 0 to the native encoder, and behaves as it
  does for the string of one zero byte.
\<close>

lemma ecdsa_zero_is_empty_string:
  assumes "d2i_ECDSA_SIG N der = Some (r, s)"
    and "BN_num_bytes r \<le> B" and "BN_num_bytes s \<le> B"
  shows "\<exists>rb sb.
     Lparse_ecdsa_signature B N [LString der] = Return [LString rb, LString sb] \<and>
     (r = 0 \<longleftrightarrow> rb = []) \<and> (s = 0 \<longleftrightarrow> sb = []) \<and>
     (\<forall>xb. int (length xb) \<le> INT_MAX \<longrightarrow>
        Lbuild_ecdsa_signature B N [LString [], LString xb] =
          (case i2d_ECDSA_SIG N 0 (big_endian xb) of
             None \<Rightarrow> Undefined
           | Some d \<Rightarrow> if B < length d then Undefined else Return [LString d]) \<and>
        Lbuild_ecdsa_signature B N [LString xb, LString []] =
          (case i2d_ECDSA_SIG N (big_endian xb) 0 of
             None \<Rightarrow> Undefined
           | Some d \<Rightarrow> if B < length d then Undefined else Return [LString d]) \<and>
        Lbuild_ecdsa_signature B N [LString [], LString xb] =
          Lbuild_ecdsa_signature B N [LString [CHR 0x00], LString xb] \<and>
        Lbuild_ecdsa_signature B N [LString xb, LString []] =
          Lbuild_ecdsa_signature B N [LString xb, LString [CHR 0x00]])"
proof -
  have p: "Lparse_ecdsa_signature B N [LString der] =
      Return [LString (BN_bn2bin r), LString (BN_bn2bin s)]"
    using parse_result [OF assms(1), of B "[]"] assms(2,3) by simp
  have e: "int (length ([] :: string)) \<le> INT_MAX" "int (length [CHR 0x00]) \<le> INT_MAX"
    by (simp_all add: INT_MAX_def)
  have b: "Lbuild_ecdsa_signature B N [LString [], LString xb] =
          (case i2d_ECDSA_SIG N 0 (big_endian xb) of
             None \<Rightarrow> Undefined
           | Some d \<Rightarrow> if B < length d then Undefined else Return [LString d])"
        "Lbuild_ecdsa_signature B N [LString xb, LString []] =
          (case i2d_ECDSA_SIG N (big_endian xb) 0 of
             None \<Rightarrow> Undefined
           | Some d \<Rightarrow> if B < length d then Undefined else Return [LString d])"
        "Lbuild_ecdsa_signature B N [LString [CHR 0x00], LString xb] =
          (case i2d_ECDSA_SIG N 0 (big_endian xb) of
             None \<Rightarrow> Undefined
           | Some d \<Rightarrow> if B < length d then Undefined else Return [LString d])"
        "Lbuild_ecdsa_signature B N [LString xb, LString [CHR 0x00]] =
          (case i2d_ECDSA_SIG N (big_endian xb) 0 of
             None \<Rightarrow> Undefined
           | Some d \<Rightarrow> if B < length d then Undefined else Return [LString d])"
    if x: "int (length xb) \<le> INT_MAX" for xb
    using build_result [OF e(1) x, of B N "[]"] build_result [OF x e(1), of B N "[]"]
      build_result [OF e(2) x, of B N "[]"] build_result [OF x e(2), of B N "[]"]
    by (simp_all add: big_endian_Nil big_endian_values)
  show ?thesis
  proof (rule exI [of _ "BN_bn2bin r"], rule exI [of _ "BN_bn2bin s"])
    show "Lparse_ecdsa_signature B N [LString der] =
        Return [LString (BN_bn2bin r), LString (BN_bn2bin s)] \<and>
      (r = 0 \<longleftrightarrow> BN_bn2bin r = []) \<and> (s = 0 \<longleftrightarrow> BN_bn2bin s = []) \<and>
      (\<forall>xb. int (length xb) \<le> INT_MAX \<longrightarrow>
        Lbuild_ecdsa_signature B N [LString [], LString xb] =
          (case i2d_ECDSA_SIG N 0 (big_endian xb) of
             None \<Rightarrow> Undefined
           | Some d \<Rightarrow> if B < length d then Undefined else Return [LString d]) \<and>
        Lbuild_ecdsa_signature B N [LString xb, LString []] =
          (case i2d_ECDSA_SIG N (big_endian xb) 0 of
             None \<Rightarrow> Undefined
           | Some d \<Rightarrow> if B < length d then Undefined else Return [LString d]) \<and>
        Lbuild_ecdsa_signature B N [LString [], LString xb] =
          Lbuild_ecdsa_signature B N [LString [CHR 0x00], LString xb] \<and>
        Lbuild_ecdsa_signature B N [LString xb, LString []] =
          Lbuild_ecdsa_signature B N [LString xb, LString [CHR 0x00]])"
      using p b by (simp add: BN_bn2bin_eq_Nil)
  qed
qed

lemma sample_der_zero:
  "d2i_ECDSA_SIG sample_native
     [CHR 0x30, CHR 0x06, CHR 0x02, CHR 0x01, CHR 0x00, CHR 0x02, CHR 0x01, CHR 0x05] = Some (0, 5)"
  "i2d_ECDSA_SIG sample_native 0 5 =
     Some [CHR 0x30, CHR 0x06, CHR 0x02, CHR 0x01, CHR 0x00, CHR 0x02, CHR 0x01, CHR 0x05]"
proof -
  have "sample_d2i
     [CHR 0x30, CHR 0x06, CHR 0x02, CHR 0x01, CHR 0x00, CHR 0x02, CHR 0x01, CHR 0x05] = Some (0, 5)"
    by code_simp
  then show "d2i_ECDSA_SIG sample_native
     [CHR 0x30, CHR 0x06, CHR 0x02, CHR 0x01, CHR 0x00, CHR 0x02, CHR 0x01, CHR 0x05] = Some (0, 5)"
    by (simp add: sample_native_def)
  have "sample_i2d 0 5 =
     Some [CHR 0x30, CHR 0x06, CHR 0x02, CHR 0x01, CHR 0x00, CHR 0x02, CHR 0x01, CHR 0x05]"
    by code_simp
  then show "i2d_ECDSA_SIG sample_native 0 5 =
     Some [CHR 0x30, CHR 0x06, CHR 0x02, CHR 0x01, CHR 0x00, CHR 0x02, CHR 0x01, CHR 0x05]"
    by (simp add: sample_native_def)
qed

lemma ecdsa_zero_is_empty_string_example:
  "Lparse_ecdsa_signature 8192 sample_native
     [LString [CHR 0x30, CHR 0x06, CHR 0x02, CHR 0x01, CHR 0x00, CHR 0x02, CHR 0x01, CHR 0x05]] =
     Return [LString [], LString [CHR 0x05]] \<and>
   Lbuild_ecdsa_signature 8192 sample_native [LString [], LString [CHR 0x05]] =
     Return [LString [CHR 0x30, CHR 0x06, CHR 0x02, CHR 0x01, CHR 0x00, CHR 0x02, CHR 0x01, CHR 0x05]]"
proof -
  let ?der = "[CHR 0x30, CHR 0x06, CHR 0x02, CHR 0x01, CHR 0x00, CHR 0x02, CHR 0x01, CHR 0x05]"
  have n: "BN_num_bytes 0 \<le> 8192" "BN_num_bytes 5 \<le> 8192"
    by (simp_all add: BN_small_values)
  have direct: "Lparse_ecdsa_signature 8192 sample_native [LString ?der] =
      Return [LString [], LString [CHR 0x05]]"
    using parse_result [OF sample_der_zero(1), of 8192 "[]"]
    by (simp add: BN_small_values BN_bn2bin_0)
  obtain rb sb where
    p: "Lparse_ecdsa_signature 8192 sample_native [LString ?der] = Return [LString rb, LString sb]"
    and z: "rb = []"
    and bd: "\<forall>xb. int (length xb) \<le> INT_MAX \<longrightarrow>
        Lbuild_ecdsa_signature 8192 sample_native [LString [], LString xb] =
          (case i2d_ECDSA_SIG sample_native 0 (big_endian xb) of
             None \<Rightarrow> Undefined
           | Some d \<Rightarrow> if 8192 < length d then Undefined else Return [LString d])"
    using ecdsa_zero_is_empty_string [OF sample_der_zero(1) n] by auto
  have "int (length [CHR 0x05]) \<le> INT_MAX" by (simp add: INT_MAX_def)
  then have "Lbuild_ecdsa_signature 8192 sample_native [LString [], LString [CHR 0x05]] =
      Return [LString ?der]"
    using bd by (simp add: big_endian_values sample_der_zero(2))
  then show ?thesis
    using direct by simp
qed

text \<open>
  C10.  The claim is made of every valid DER signature with a zero component; the code
  does not keep it when the other integer is long, by the same unchecked write as in
  C8 (line 484).  With \<open>LUAL_BUFFERSIZE = 8192\<close>, \<open>r = 0\<close> and an \<open>s\<close> of 8193
  bytes, which the decoder accepts, \<open>s\<close> is written past its buffer:
  \<open>parse_ecdsa_signature\<close> does not return the empty string for \<open>r\<close>, its behaviour
  is undefined.
\<close>

theorem ecdsa_zero_overruns_buffer:
  "d2i_ECDSA_SIG sample_native
     (CHR 0x30 # CHR 0x82 # CHR 0x20 # CHR 0x08 #
      CHR 0x02 # CHR 0x01 # CHR 0x00 #
      CHR 0x02 # CHR 0x82 # CHR 0x20 # CHR 0x01 #
      CHR 0x01 # replicate 8192 (CHR 0x00)) =
     Some (0, big_endian (CHR 0x01 # replicate 8192 (CHR 0x00))) \<and>
   Lparse_ecdsa_signature 8192 sample_native
     [LString (CHR 0x30 # CHR 0x82 # CHR 0x20 # CHR 0x08 #
               CHR 0x02 # CHR 0x01 # CHR 0x00 #
               CHR 0x02 # CHR 0x82 # CHR 0x20 # CHR 0x01 #
               CHR 0x01 # replicate 8192 (CHR 0x00))] =
     Undefined"
proof -
  have d: "d2i_ECDSA_SIG sample_native
     (CHR 0x30 # CHR 0x82 # CHR 0x20 # CHR 0x08 #
      CHR 0x02 # CHR 0x01 # CHR 0x00 #
      CHR 0x02 # CHR 0x82 # CHR 0x20 # CHR 0x01 #
      CHR 0x01 # replicate 8192 (CHR 0x00)) =
     Some (0, big_endian (CHR 0x01 # replicate 8192 (CHR 0x00)))"
    using sample_d2i_big_s by (simp add: sample_native_def)
  show ?thesis
    using parse_result [OF d, of 8192 "[]"] d by (simp add: BN_num_bytes_big)
qed

end
